theory Spec2Isabelle
  imports Main "HOL-Library.Word"
begin

section \<open>The spawn manager (ext/apache2/SpawnManager.h)\<close>

text \<open>
  \<^verbatim>\<open>SpawnManager\<close> supervises one spawn server: \<^verbatim>\<open>restartServer()\<close> forks and
  execs it over a fresh socket pair, \<^verbatim>\<open>spawn()\<close> sends it one request and reads one
  reply. The class talks to the operating system and to the message channel; the model
  makes both explicit:
  \<^item> the process is a record of its open descriptors and of the calls it has made, in
    order (\<open>trace\<close>);
  \<^item> what each system call and each channel operation answers is read from an
    environment record, so every theorem holds for every answer;
  \<^item> an exception is a value: every function returns an \<open>outcome\<close> beside the
    state it leaves behind.
  A blocking call (\<^verbatim>\<open>waitpid\<close>, a channel read) is modelled at its return. The
  mutex of \<^verbatim>\<open>spawn()\<close> is not modelled: the model is one thread's view of a call that
  holds the lock from its first statement to its last.
\<close>

subsection \<open>Exceptions and outcomes\<close>

text \<open>
  \<^verbatim>\<open>SystemException(message, errno)\<close> and \<^verbatim>\<open>IOException(message)\<close> are declared in
  Exceptions.h, which is not among the sources; only their constructor arguments are
  used here, and both are taken to derive from \<^verbatim>\<open>std::exception\<close>, so that the handler
  of line 254 catches them. \<^verbatim>\<open>RestartException\<close> (lines 149-168) holds the exception that made the
  restart fail.
\<close>

datatype std_exception =
  SystemException string int
| IOException string

datatype RestartException = RestartException (getSubException: std_exception)

text \<open>What \<^verbatim>\<open>spawn()\<close> can throw: an exception of the exchange, or the wrapper.\<close>

datatype spawn_exception =
  Plain std_exception
| Restart RestartException

text \<open>
  How a call ends. \<open>NoReturn\<close> is the forked child, which execs or exits inside
  \<^verbatim>\<open>restartServer()\<close>; \<open>Undefined\<close> is a step on which C++ puts no requirement
  (\<^verbatim>\<open>front()\<close> of an empty vector).
\<close>

datatype ('e, 'a) outcome = Returned 'a | Thrown 'e | NoReturn | Undefined

subsection \<open>The process and its system calls\<close>

datatype event =
  Ev_close nat
| Ev_fclose nat
| Ev_waitpid int
| Ev_socketpair
| Ev_fopen string string
| Ev_fork
| Ev_dup2 nat nat
| Ev_setenv string string
| Ev_execlp string "string list"
| Ev_exit int
| Ev_write "string list"
| Ev_read
| Ev_readFileDescriptor

text \<open>
  A descriptor is an index into the process's table, so a natural number; a
  \<^verbatim>\<open>FILE*\<close> is named by the descriptor it wraps.
\<close>

record process =
  open_fds :: "nat set"
  trace :: "event list"

text \<open>
  The answers of the operating system to one \<^verbatim>\<open>restartServer()\<close>: each call is
  made at most once there.
  \<^item> \<open>socketpair_ret\<close>: \<open>Inl errno\<close> for -1, \<open>Inr (fds[0], fds[1])\<close> for 0;
  \<^item> \<open>fopen_ret\<close>: \<open>None\<close> for \<^verbatim>\<open>NULL\<close>;
  \<^item> \<open>fork_ret\<close>: what \<^verbatim>\<open>fork()\<close> returns in the process that is modelled (0 in
    the child, -1 with \<open>fork_errno\<close> on failure, the child's pid otherwise);
  \<^item> \<open>open_max\<close>: \<^verbatim>\<open>sysconf(_SC_OPEN_MAX)\<close>;
  \<^item> \<open>execlp_ret\<close>: \<open>None\<close> when \<^verbatim>\<open>execlp\<close> replaces the image, \<open>Some errno\<close> when
    it returns.
\<close>

record sys_env =
  socketpair_ret :: "int + nat \<times> nat"
  fopen_ret :: "nat option"
  fork_ret :: int
  fork_errno :: int
  open_max :: nat
  execlp_ret :: "int option"

definition log_event :: "event \<Rightarrow> process \<Rightarrow> process" where
  "log_event e p = p\<lparr>trace := trace p @ [e]\<rparr>"

definition os_close :: "nat \<Rightarrow> process \<Rightarrow> process" where
  "os_close d p = log_event (Ev_close d) (p\<lparr>open_fds := open_fds p - {d}\<rparr>)"

definition os_fclose :: "nat \<Rightarrow> process \<Rightarrow> process" where
  "os_fclose f p = log_event (Ev_fclose f) (p\<lparr>open_fds := open_fds p - {f}\<rparr>)"

definition os_waitpid :: "int \<Rightarrow> process \<Rightarrow> process" where
  "os_waitpid child p = log_event (Ev_waitpid child) p"

definition os_socketpair :: "('a sys_env_scheme) \<Rightarrow> process \<Rightarrow> (int + nat \<times> nat) \<times> process" where
  "os_socketpair env p =
     (case socketpair_ret env of
        Inl errno \<Rightarrow> (Inl errno, log_event Ev_socketpair p)
      | Inr (a, b) \<Rightarrow>
          (Inr (a, b), log_event Ev_socketpair (p\<lparr>open_fds := open_fds p \<union> {a, b}\<rparr>)))"

definition os_fopen :: "('a sys_env_scheme) \<Rightarrow> string \<Rightarrow> string \<Rightarrow> process \<Rightarrow> nat option \<times> process" where
  "os_fopen env path mode p =
     (case fopen_ret env of
        None \<Rightarrow> (None, log_event (Ev_fopen path mode) p)
      | Some f \<Rightarrow> (Some f, log_event (Ev_fopen path mode) (p\<lparr>open_fds := insert f (open_fds p)\<rparr>)))"

definition os_fork :: "('a sys_env_scheme) \<Rightarrow> process \<Rightarrow> int \<times> process" where
  "os_fork env p = (fork_ret env, log_event Ev_fork p)"

definition os_dup2 :: "nat \<Rightarrow> nat \<Rightarrow> process \<Rightarrow> process" where
  "os_dup2 old new p =
     log_event (Ev_dup2 old new)
       (if old \<in> open_fds p then p\<lparr>open_fds := insert new (open_fds p)\<rparr> else p)"

definition STDIN_FILENO :: nat where "STDIN_FILENO = 0"
definition STDOUT_FILENO :: nat where "STDOUT_FILENO = 1"
definition STDERR_FILENO :: nat where "STDERR_FILENO = 2"

text \<open>
  Lines 114-118: \<^verbatim>\<open>for (long i = sysconf(_SC_OPEN_MAX) - 1; i >= 0; i--)\<close>, closing every
  descriptor but the three standard ones. \<open>close_others n\<close> is the loop with \<open>n\<close>
  values of \<open>i\<close> left, from \<open>n - 1\<close> down to 0.
\<close>

primrec close_others :: "nat \<Rightarrow> process \<Rightarrow> process" where
  "close_others 0 p = p"
| "close_others (Suc i) p =
     close_others i
       (if i \<noteq> STDIN_FILENO \<and> i \<noteq> STDOUT_FILENO \<and> i \<noteq> STDERR_FILENO
        then os_close i p else p)"

subsection \<open>The message channel\<close>

text \<open>
  Modelled from the spec: MessageChannel.h is not among the sources. The spec's channel is
  bound to a local endpoint or empty; \<^verbatim>\<open>close()\<close> "releases the local endpoint;
  idempotent"; \<^verbatim>\<open>write\<close> fails with an error; \<^verbatim>\<open>read\<close> returns the fields of one
  message, or "an explicit no-message result (not an error) if the peer closed cleanly"
  (\<^verbatim>\<open>false\<close> in line 248), or fails; \<^verbatim>\<open>readFileDescriptor\<close> returns the one passed
  descriptor, which is then open in this process, or fails. What the peer and the
  transport do is the environment's choice.
\<close>

record MessageChannel =
  channel_fd :: "nat option"

definition MessageChannel_default :: MessageChannel where
  "MessageChannel_default = \<lparr>channel_fd = None\<rparr>"

definition MessageChannel_of :: "nat \<Rightarrow> MessageChannel" where
  "MessageChannel_of d = \<lparr>channel_fd = Some d\<rparr>"

definition connected :: "MessageChannel \<Rightarrow> bool" where
  "connected ch = (channel_fd ch \<noteq> None)"

definition channel_close :: "MessageChannel \<Rightarrow> process \<Rightarrow> MessageChannel \<times> process" where
  "channel_close ch p =
     (case channel_fd ch of
        None \<Rightarrow> (ch, p)
      | Some d \<Rightarrow> (ch\<lparr>channel_fd := None\<rparr>, os_close d p))"

record env = sys_env +
  write_ret :: "std_exception option"
  read_ret :: "std_exception + string list option"
  readFileDescriptor_ret :: "std_exception + nat"

definition channel_write :: "env \<Rightarrow> MessageChannel \<Rightarrow> string list \<Rightarrow> process \<Rightarrow> std_exception option \<times> process" where
  "channel_write env ch args p = (write_ret env, log_event (Ev_write args) p)"

definition channel_read :: "env \<Rightarrow> MessageChannel \<Rightarrow> process \<Rightarrow> (std_exception + string list option) \<times> process" where
  "channel_read env ch p = (read_ret env, log_event Ev_read p)"

definition channel_readFileDescriptor :: "env \<Rightarrow> MessageChannel \<Rightarrow> process \<Rightarrow> (std_exception + nat) \<times> process" where
  "channel_readFileDescriptor env ch p =
     (case readFileDescriptor_ret env of
        Inl e \<Rightarrow> (Inl e, log_event Ev_readFileDescriptor p)
      | Inr d \<Rightarrow> (Inr d, log_event Ev_readFileDescriptor (p\<lparr>open_fds := insert d (open_fds p)\<rparr>)))"

subsection \<open>The manager's state and \<^verbatim>\<open>restartServer()\<close>\<close>

record SpawnManager =
  spawnServerCommand :: string
  logFile :: string
  environment :: string
  rubyCommand :: string
  channel :: MessageChannel
  pid :: int
  serverNeedsRestart :: bool

text \<open>
  \<^verbatim>\<open>c_str()\<close> hands a C function the bytes before the first NUL: \<^verbatim>\<open>fopen\<close>,
  \<^verbatim>\<open>setenv\<close>, \<^verbatim>\<open>execlp\<close>, the channel's \<^verbatim>\<open>write\<close> and \<^verbatim>\<open>atoi\<close> all receive their
  strings this way.
\<close>

definition c_str :: "string \<Rightarrow> string" where
  "c_str s = takeWhile (\<lambda>c. c \<noteq> CHR 0x00) s"

text \<open>Lines 75-80: a tracked server is closed, reaped and forgotten.\<close>

definition reap_server :: "SpawnManager \<Rightarrow> process \<Rightarrow> SpawnManager \<times> process" where
  "reap_server m p =
     (if pid m \<noteq> 0 then
        (let (ch, p1) = channel_close (channel m) p;
             p2 = os_waitpid (pid m) p1
         in (m\<lparr>channel := ch, pid := 0\<rparr>, p2))
      else (m, p))"

text \<open>
  Lines 100-124, the child: standard error to the log file, standard output to standard
  error, \<^verbatim>\<open>RAILS_ENV\<close>, standard input to \<^verbatim>\<open>fds[1]\<close>, every other descriptor closed,
  then \<^verbatim>\<open>execlp\<close>. Whether \<^verbatim>\<open>execlp\<close> replaces the image or fails and \<^verbatim>\<open>_exit(1)\<close>
  runs (lines 121-124; the message to standard error is not modelled), the call never
  returns.
\<close>

definition child_branch :: "('a sys_env_scheme) \<Rightarrow> SpawnManager \<Rightarrow> nat \<times> nat \<Rightarrow> nat option \<Rightarrow> process \<Rightarrow> process" where
  "child_branch env m fds logFileHandle p =
     (let p1 = (if logFile m \<noteq> [] then
                  (case logFileHandle of
                     Some f \<Rightarrow> os_fclose f (os_dup2 f STDERR_FILENO p)
                   | None \<Rightarrow> p)
                else p);
          p2 = os_dup2 STDERR_FILENO STDOUT_FILENO p1;
          p3 = (if environment m \<noteq> [] then log_event (Ev_setenv ''RAILS_ENV'' (c_str (environment m))) p2 else p2);
          p4 = os_dup2 (snd fds) STDIN_FILENO p3;
          p5 = os_close (fst fds) p4;
          p6 = os_close (snd fds) p5;
          p7 = close_others (open_max env) p6;
          p8 = log_event
                 (Ev_execlp (c_str (rubyCommand m))
                    [c_str (rubyCommand m), c_str (spawnServerCommand m)]) p7
      in case execlp_ret env of
           None \<Rightarrow> p8
         | Some e \<Rightarrow> log_event (Ev_exit 1) p8)"

text \<open>
  Lines 74-142. The three branches after \<^verbatim>\<open>fork()\<close> are the source's: \<^verbatim>\<open>pid == 0\<close>,
  \<^verbatim>\<open>pid == -1\<close>, and everything else. In the last branch \<^verbatim>\<open>logFileHandle\<close> is not
  \<^verbatim>\<open>NULL\<close> when \<^verbatim>\<open>logFile\<close> is not empty, since a \<^verbatim>\<open>NULL\<close> has thrown in line 95.
  Line 89 tests the whole string for emptiness, line 90 opens its \<^verbatim>\<open>c_str()\<close>, and
  lines 92-94 put the whole string into the message.
\<close>

definition restartServer :: "('a sys_env_scheme) \<Rightarrow> SpawnManager \<Rightarrow> process \<Rightarrow> (std_exception, unit) outcome \<times> SpawnManager \<times> process" where
  "restartServer env m0 p0 =
     (let (m1, p1) = reap_server m0 p0;
          m2 = m1\<lparr>serverNeedsRestart := True\<rparr>
      in case os_socketpair env p1 of
           (Inl errno, p2) \<Rightarrow>
             (Thrown (SystemException ''Cannot create a Unix socket'' errno), m2, p2)
         | (Inr fds, p2) \<Rightarrow>
             (let (logFileHandle, p3) =
                    (if logFile m2 \<noteq> [] then os_fopen env (c_str (logFile m2)) ''a'' p2
                     else (None, p2))
              in if logFile m2 \<noteq> [] \<and> logFileHandle = None then
                   (Thrown (IOException (''Cannot open log file '' @ [CHR 0x27] @ logFile m2 @ [CHR 0x27] @ '' for writing.'')),
                    m2, p3)
                 else
                   (let (r, p4) = os_fork env p3;
                        m3 = m2\<lparr>pid := r\<rparr>
                    in if r = 0 then
                         (NoReturn, m3, child_branch env m3 fds logFileHandle p4)
                       else if r = - 1 then
                         (let e = fork_errno env;
                              p5 = os_close (fst fds) p4;
                              p6 = os_close (snd fds) p5;
                              p7 = (case logFileHandle of Some f \<Rightarrow> os_fclose f p6 | None \<Rightarrow> p6)
                          in (Thrown (SystemException ''Unable to fork a process'' e),
                              m3\<lparr>pid := 0\<rparr>, p7))
                       else
                         (let p5 = os_close (snd fds) p4;
                              p6 = (if logFile m3 \<noteq> [] then
                                      (case logFileHandle of Some f \<Rightarrow> os_fclose f p5 | None \<Rightarrow> p5)
                                    else p5)
                          in (Returned (),
                              m3\<lparr>channel := MessageChannel_of (fst fds), serverNeedsRestart := False\<rparr>,
                              p6)))))"

subsection \<open>\<^verbatim>\<open>atoi\<close>\<close>

definition isspace :: "char \<Rightarrow> bool" where
  "isspace c = (c \<in> {CHR 0x20, CHR 0x09, CHR 0x0A, CHR 0x0B, CHR 0x0C, CHR 0x0D})"

definition isdigit :: "char \<Rightarrow> bool" where
  "isdigit c = (48 \<le> (of_char c :: nat) \<and> (of_char c :: nat) \<le> 57)"

definition digit_of :: "char \<Rightarrow> int" where
  "digit_of c = int (of_char c) - 48"

text \<open>The digits are read left to right until the first byte that is not one.\<close>

fun scan_digits :: "int \<Rightarrow> string \<Rightarrow> int" where
  "scan_digits acc [] = acc"
| "scan_digits acc (c # cs) =
     (if isdigit c then scan_digits (acc * 10 + digit_of c) cs else acc)"

definition LONG_MAX :: int where "LONG_MAX = 2 ^ 63 - 1"
definition LONG_MIN :: int where "LONG_MIN = - (2 ^ 63)"
definition INT_MAX :: int where "INT_MAX = 2 ^ 31 - 1"
definition INT_MIN :: int where "INT_MIN = - (2 ^ 31)"

text \<open>
  \<^verbatim>\<open>strtol(s, NULL, 10)\<close>: white space, an optional sign, digits; a value outside
  \<^verbatim>\<open>long\<close> is clamped (64-bit \<^verbatim>\<open>long\<close>).
\<close>

definition strtol :: "string \<Rightarrow> int" where
  "strtol s =
     (let s1 = dropWhile isspace s;
          (negative, s2) =
            (case s1 of
               [] \<Rightarrow> (False, s1)
             | c # r \<Rightarrow>
                 if c = CHR ''-'' then (True, r)
                 else if c = CHR ''+'' then (False, r)
                 else (False, s1));
          v = scan_digits 0 s2;
          v' = (if negative then - v else v)
      in max LONG_MIN (min LONG_MAX v'))"

text \<open>The conversion of a \<^verbatim>\<open>long\<close> to the 32-bit \<^verbatim>\<open>int\<close>: the low 32 bits, signed.\<close>

definition int_of_long :: "int \<Rightarrow> int" where
  "int_of_long v = (v + 2 ^ 31) mod 2 ^ 32 - 2 ^ 31"

text \<open>
  \<^verbatim>\<open>atoi\<close> is the C library's. It is modelled as glibc defines it,
  \<^verbatim>\<open>(int) strtol(s, NULL, 10)\<close>. C leaves the result undefined when the value is not
  an \<^verbatim>\<open>int\<close>; whatever a library returns there is an \<^verbatim>\<open>int\<close>, so it lies between
  \<open>INT_MIN\<close> and \<open>INT_MAX\<close> as the model's value does.
\<close>

definition atoi :: "string \<Rightarrow> int" where
  "atoi s = int_of_long (strtol s)"

subsection \<open>\<^verbatim>\<open>spawn()\<close>, the constructor and the destructor\<close>

text \<open>
  Modelled from the spec: Application.h is not among the sources. The spec's Worker
  Handle bundles "its originating root path, its process id, and the listening socket
  descriptor", the three arguments of the constructor call in line 253.
\<close>

record Application =
  appRoot :: string
  appPid :: int
  listenSocket :: nat

text \<open>Lines 254-258: every exception of the \<^verbatim>\<open>try\<close> block sets the flag and is rethrown.\<close>

definition catch_rethrow :: "std_exception \<Rightarrow> SpawnManager \<Rightarrow> process \<Rightarrow> (spawn_exception, Application) outcome \<times> SpawnManager \<times> process" where
  "catch_rethrow e m p = (Thrown (Plain e), m\<lparr>serverNeedsRestart := True\<rparr>, p)"

text \<open>Lines 246-258, the \<^verbatim>\<open>try\<close> block and its handler.\<close>

definition spawn_exchange :: "env \<Rightarrow> string \<Rightarrow> string \<Rightarrow> string \<Rightarrow> SpawnManager \<Rightarrow> process \<Rightarrow> (spawn_exception, Application) outcome \<times> SpawnManager \<times> process" where
  "spawn_exchange env root user grp m p =
     (case channel_write env (channel m)
             [''spawn_application'', c_str root, c_str user, c_str grp] p of
        (Some e, p1) \<Rightarrow> catch_rethrow e m p1
      | (None, p1) \<Rightarrow>
          (case channel_read env (channel m) p1 of
             (Inl e, p2) \<Rightarrow> catch_rethrow e m p2
           | (Inr None, p2) \<Rightarrow>
               catch_rethrow (IOException ''The spawn server has exited unexpectedly.'') m p2
           | (Inr (Some args), p2) \<Rightarrow>
               (case args of
                  [] \<Rightarrow> (Undefined, m, p2)
                | front # _ \<Rightarrow>
                    (let pid' = atoi (c_str front) in
                     case channel_readFileDescriptor env (channel m) p2 of
                       (Inl e, p3) \<Rightarrow> catch_rethrow e m p3
                     | (Inr listenSocket', p3) \<Rightarrow>
                         (Returned \<lparr>appRoot = root, appPid = pid', listenSocket = listenSocket'\<rparr>,
                          m, p3)))))"

text \<open>
  Lines 225-259. The two handlers of lines 235-243 wrap a copy of what
  \<^verbatim>\<open>restartServer()\<close> threw.
\<close>

definition spawn :: "env \<Rightarrow> string \<Rightarrow> string \<Rightarrow> string \<Rightarrow> SpawnManager \<Rightarrow> process \<Rightarrow> (spawn_exception, Application) outcome \<times> SpawnManager \<times> process" where
  "spawn env root user grp m0 p0 =
     (case (if serverNeedsRestart m0 then restartServer env m0 p0 else (Returned (), m0, p0)) of
        (Thrown (IOException msg), m1, p1) \<Rightarrow>
          (Thrown (Restart (RestartException (IOException msg))), m1, p1)
      | (Thrown (SystemException msg code), m1, p1) \<Rightarrow>
          (Thrown (Restart (RestartException (SystemException msg code))), m1, p1)
      | (NoReturn, m1, p1) \<Rightarrow> (NoReturn, m1, p1)
      | (Undefined, m1, p1) \<Rightarrow> (Undefined, m1, p1)
      | (Returned u, m1, p1) \<Rightarrow> spawn_exchange env root user grp m1 p1)"

text \<open>
  Lines 187-197. The constructor does not initialise \<^verbatim>\<open>serverNeedsRestart\<close>;
  \<^verbatim>\<open>restartServer()\<close> writes it before anything reads it, so the model takes the
  indeterminate value as the argument \<open>b\<close>. A constructor that throws leaves no object.
\<close>

definition SpawnManager_new :: "('a sys_env_scheme) \<Rightarrow> bool \<Rightarrow> string \<Rightarrow> string \<Rightarrow> string \<Rightarrow> string \<Rightarrow> process \<Rightarrow> (std_exception, SpawnManager) outcome \<times> process" where
  "SpawnManager_new env b cmd lf renv ruby p =
     (case restartServer env
             \<lparr>spawnServerCommand = cmd, logFile = lf, environment = renv, rubyCommand = ruby,
              channel = MessageChannel_default, pid = 0, serverNeedsRestart = b\<rparr> p of
        (Returned u, m, p1) \<Rightarrow> (Returned m, p1)
      | (Thrown e, m, p1) \<Rightarrow> (Thrown e, p1)
      | (NoReturn, m, p1) \<Rightarrow> (NoReturn, p1)
      | (Undefined, m, p1) \<Rightarrow> (Undefined, p1))"

text \<open>
  Lines 199-204: the members as the destructor's body leaves them. \<^verbatim>\<open>pid\<close> is not
  written.
\<close>

definition SpawnManager_destroy :: "SpawnManager \<Rightarrow> process \<Rightarrow> SpawnManager \<times> process" where
  "SpawnManager_destroy m p =
     (if pid m \<noteq> 0 then
        (let (ch, p1) = channel_close (channel m) p;
             p2 = os_waitpid (pid m) p1
         in (m\<lparr>channel := ch\<rparr>, p2))
      else (m, p))"

section \<open>The status extractor (ext/nginx/HttpStatusExtractor.h)\<close>

definition CR :: char where "CR = CHR 0x0D"
definition LF :: char where "LF = CHR 0x0A"

definition httpStatusCodes :: "(string \<times> string) list" where
  "httpStatusCodes =
    [(''100'', ''Continue''),
     (''101'', ''Switching Protocols''),
     (''200'', ''OK''),
     (''201'', ''Created''),
     (''202'', ''Accepted''),
     (''203'', ''Non-Authoritative Information''),
     (''204'', ''No Content''),
     (''205'', ''Reset Content''),
     (''206'', ''Partial Content''),
     (''300'', ''Multiple Choices''),
     (''301'', ''Moved Permanently''),
     (''302'', ''Found''),
     (''303'', ''See Other''),
     (''304'', ''Not Modified''),
     (''305'', ''Use Proxy''),
     (''307'', ''Temporary Redirect''),
     (''400'', ''Bad Request''),
     (''401'', ''Unauthorized''),
     (''402'', ''Payment Required''),
     (''403'', ''Forbidden''),
     (''404'', ''Not Found''),
     (''405'', ''Method Not Allowed''),
     (''406'', ''Not Acceptable''),
     (''407'', ''Proxy Authentication Required''),
     (''408'', ''Request Timeout''),
     (''409'', ''Conflict''),
     (''410'', ''Gone''),
     (''411'', ''Length Required''),
     (''412'', ''Precondition Failed''),
     (''413'', ''Request Entity Too Large''),
     (''414'', ''Request-URI Too Large''),
     (''415'', ''Unsupported Media Type''),
     (''416'', ''Requested Range Not Satisfiable''),
     (''417'', ''Expectation Failed''),
     (''500'', ''Internal Server Error''),
     (''501'', ''Not Implemented''),
     (''502'', ''Bad Gateway''),
     (''503'', ''Service Unavailable''),
     (''504'', ''Gateway Timeout''),
     (''505'', ''HTTP Version Not Supported'')]"

definition httpStatusCodesMap :: "string \<rightharpoonup> string" where
  "httpStatusCodesMap = map_of httpStatusCodes"

text \<open>
  \<^verbatim>\<open>size_t\<close> is 64 bits wide and \<^verbatim>\<open>string::npos\<close> is its largest value;
  \<^verbatim>\<open>searchStart\<close> is an \<^verbatim>\<open>unsigned int\<close>, 32 bits wide.
\<close>

type_synonym size_t = "64 word"

definition npos :: size_t where
  "npos = - 1"

text \<open>The first index at or after \<open>i\<close> where \<open>pat\<close> starts, \<open>s\<close> being the text from \<open>i\<close> on.\<close>

fun find_sub :: "string \<Rightarrow> string \<Rightarrow> nat \<Rightarrow> nat option" where
  "find_sub pat [] i = (if pat = [] then Some i else None)"
| "find_sub pat (c # cs) i =
     (if take (length pat) (c # cs) = pat then Some i else find_sub pat cs (Suc i))"

text \<open>\<^verbatim>\<open>string::find(pat, pos)\<close>.\<close>

definition string_find :: "string \<Rightarrow> string \<Rightarrow> size_t \<Rightarrow> size_t" where
  "string_find s pat pos =
     (if unat pos > length s then npos
      else (case find_sub pat (drop (unat pos) s) (unat pos) of
              None \<Rightarrow> npos
            | Some i \<Rightarrow> of_nat i))"

text \<open>
  \<^verbatim>\<open>string::substr(pos, n)\<close> for \<open>pos\<close> within the string; beyond the end the
  source throws \<^verbatim>\<open>std::out_of_range\<close>. Both calls of \<^verbatim>\<open>extractStatusLine()\<close> stay
  within the string (\<open>status_positions_in_range\<close> below for the first, position 0 for
  the second).
\<close>

definition substr :: "string \<Rightarrow> size_t \<Rightarrow> size_t \<Rightarrow> string" where
  "substr s pos n = take (unat n) (drop (unat pos) s)"

record HttpStatusExtractor =
  buffer :: string
  searchStart :: "32 word"
  fullHeaderReceived :: bool
  statusLine :: string

definition statusHeaderName :: string where
  "statusHeaderName = ''Status: ''"

text \<open>
  Lines 118-131: where the status value starts and where its line ends.
  \<^verbatim>\<open>newline_pos\<close> is left unset by the source when the header is not found, and is
  not read then; the model puts 0 there.
\<close>

definition status_positions :: "string \<Rightarrow> size_t \<times> size_t" where
  "status_positions buf =
     (if length buf > length statusHeaderName
         \<and> take (length statusHeaderName) buf = statusHeaderName
      then (of_nat (length statusHeaderName), string_find buf [CR, LF] 0 + 2)
      else
        (let start_pos = string_find buf ([CR, LF] @ statusHeaderName) 0
         in if start_pos \<noteq> npos
            then (start_pos + 2 + of_nat (length statusHeaderName),
                  string_find buf [CR, LF]
                    (start_pos + 2 + of_nat (length statusHeaderName)) + 2)
            else (start_pos, 0)))"

text \<open>Lines 114-157.\<close>

definition extractStatusLine :: "HttpStatusExtractor \<Rightarrow> bool \<times> HttpStatusExtractor" where
  "extractStatusLine s =
     (let (start_pos, newline_pos) = status_positions (buffer s)
      in if start_pos \<noteq> npos then
           (let line = substr (buffer s) start_pos (newline_pos - start_pos)
            in case httpStatusCodesMap (substr line 0 3) of
                 Some reason \<Rightarrow>
                   (True, s\<lparr>statusLine := substr line 0 3 @ '' '' @ reason @ [CR, LF]\<rparr>)
               | None \<Rightarrow> (True, s\<lparr>statusLine := line\<rparr>))
         else (False, s))"

definition HttpStatusExtractor_new :: HttpStatusExtractor where
  "HttpStatusExtractor_new =
     \<lparr>buffer = [], searchStart = 0, fullHeaderReceived = False,
      statusLine = ''200 OK'' @ [CR, LF]\<rparr>"

text \<open>
  Lines 193-203, the loop of \<^verbatim>\<open>feed()\<close>. The comparison is made in \<^verbatim>\<open>size_t\<close>, the
  increments and the three index sums in \<^verbatim>\<open>unsigned int\<close>, where they wrap at \<open>2^32\<close>:
  on a buffer of more than 4 GiB without the terminator the loop starts over and never
  ends, so the loop is a partial function.
\<close>

partial_function (option) feed_loop :: "HttpStatusExtractor \<Rightarrow> (bool \<times> HttpStatusExtractor) option" where
  "feed_loop s =
     (if length (buffer s) \<ge> 3 \<and> unat (searchStart s) < length (buffer s) - 3 then
        (if buffer s ! unat (searchStart s) = CR
            \<and> buffer s ! unat (searchStart s + 1) = LF
            \<and> buffer s ! unat (searchStart s + 2) = CR
            \<and> buffer s ! unat (searchStart s + 3) = LF
         then Some (True, snd (extractStatusLine (s\<lparr>fullHeaderReceived := True\<rparr>)))
         else feed_loop (s\<lparr>searchStart := searchStart s + 1\<rparr>))
      else Some (False, s))"

declare feed_loop.simps [code]

text \<open>Lines 188-204; \<open>data\<close> is the \<^verbatim>\<open>size\<close> bytes at \<^verbatim>\<open>data\<close>.\<close>

definition feed :: "string \<Rightarrow> HttpStatusExtractor \<Rightarrow> (bool \<times> HttpStatusExtractor) option" where
  "feed data s =
     (if fullHeaderReceived s then Some (True, s)
      else feed_loop (s\<lparr>buffer := buffer s @ data\<rparr>))"

definition getStatusLine :: "HttpStatusExtractor \<Rightarrow> string" where
  "getStatusLine s = statusLine s"

definition getBuffer :: "HttpStatusExtractor \<Rightarrow> string" where
  "getBuffer s = buffer s"

section \<open>Vocabulary of the properties\<close>

text \<open>
  Counting the calls a process has made: \<open>writes\<close> counts the channel writes,
  \<open>calls e\<close> the occurrences of the event \<open>e\<close> in the trace.
\<close>

fun is_write :: "event \<Rightarrow> bool" where
  "is_write (Ev_write args) = True"
| "is_write e = False"

definition writes :: "process \<Rightarrow> nat" where
  "writes p = length (filter is_write (trace p))"

definition calls :: "event \<Rightarrow> process \<Rightarrow> nat" where
  "calls e p = count_list (trace p) e"

text \<open>
  The spec's invariant of the supervisor state: \<^verbatim>\<open>helperPid == none\<close> (\<^verbatim>\<open>pid == 0\<close>) exactly
  when the channel is unbound.
\<close>

definition state_invariant :: "SpawnManager \<Rightarrow> bool" where
  "state_invariant m = ((pid m = 0) = (\<not> connected (channel m)))"

text \<open>
  A decimal numeral is a non-empty string of digits; its value is the positional one,
  written without reference to how \<^verbatim>\<open>atoi\<close> scans.
\<close>

definition is_decimal :: "string \<Rightarrow> bool" where
  "is_decimal s = (s \<noteq> [] \<and> list_all isdigit s)"

definition decimal_value :: "string \<Rightarrow> nat" where
  "decimal_value s = (\<Sum>i<length s. nat (digit_of (s ! i)) * 10 ^ (length s - Suc i))"

text \<open>
  The spec's end-to-end scenario: a process with its three standard descriptors, a helper
  that answers \<^verbatim>\<open>("4242",)\<close> with one descriptor attached, and the manager that the
  constructor builds there (helper 1234 on descriptor 3). \<open>example_process\<close> is the
  process after that construction, with an empty trace.
\<close>

definition initial_process :: process where
  "initial_process = \<lparr>open_fds = {0, 1, 2}, trace = []\<rparr>"

definition example_process :: process where
  "example_process = \<lparr>open_fds = {0, 1, 2, 3}, trace = []\<rparr>"

definition example_env :: env where
  "example_env =
     \<lparr>socketpair_ret = Inr (3, 4), fopen_ret = Some 5, fork_ret = 1234, fork_errno = 0,
      open_max = 1024, execlp_ret = None, write_ret = None, read_ret = Inr (Some [''4242'']),
      readFileDescriptor_ret = Inr 6\<rparr>"

definition example_manager :: SpawnManager where
  "example_manager =
     \<lparr>spawnServerCommand = ''spawn-server'', logFile = ''/var/log/spawn.log'',
      environment = ''production'', rubyCommand = ''ruby'',
      channel = MessageChannel_of 3, pid = 1234, serverNeedsRestart = False\<rparr>"

text \<open>
  A caller that goes on feeding: the chunks \<open>ds\<close> are fed in order, and the answers
  are collected. A response of the kind the extractor is written for.
\<close>

fun feed_all :: "string list \<Rightarrow> HttpStatusExtractor \<Rightarrow> (bool list \<times> HttpStatusExtractor) option" where
  "feed_all [] s = Some ([], s)"
| "feed_all (d # ds) s =
     (case feed d s of
        None \<Rightarrow> None
      | Some (r, s1) \<Rightarrow>
          (case feed_all ds s1 of
             None \<Rightarrow> None
           | Some (rs, s2) \<Rightarrow> Some (r # rs, s2)))"

definition example_response :: string where
  "example_response = ''Status: 404 Not Found'' @ [CR, LF, CR, LF] @ ''body''"

section \<open>Properties of the spawn manager\<close>

subsection \<open>Counting calls\<close>

lemmas os_defs = log_event_def os_close_def os_fclose_def os_waitpid_def os_socketpair_def
  os_fopen_def os_fork_def os_dup2_def channel_close_def

lemmas example_defs = initial_process_def example_process_def example_env_def example_manager_def
  MessageChannel_of_def MessageChannel_default_def c_str_def

lemmas count_defs = writes_def calls_def

lemma counts_log_event:
  "writes (log_event e p) = (if is_write e then Suc (writes p) else writes p)"
  "calls e' (log_event e p) = (if e = e' then Suc (calls e' p) else calls e' p)"
  by (simp_all add: count_defs log_event_def)

lemma counts_open_fds:
  "writes (p\<lparr>open_fds := X\<rparr>) = writes p"
  "calls e' (p\<lparr>open_fds := X\<rparr>) = calls e' p"
  by (simp_all add: count_defs)

lemmas os_defs' = os_close_def os_fclose_def os_waitpid_def os_socketpair_def
  os_fopen_def os_fork_def os_dup2_def channel_close_def

lemmas counts_simps = counts_log_event counts_open_fds

lemmas eval_defs = example_defs restartServer_def reap_server_def spawn_def spawn_exchange_def
  catch_rethrow_def channel_write_def channel_read_def channel_readFileDescriptor_def
  os_defs Let_def c_str_def SpawnManager_new_def SpawnManager_destroy_def

subsection \<open>\<^verbatim>\<open>restartServer()\<close>\<close>

lemma reap_server_facts:
  assumes "reap_server m p = (m', p')"
  shows "pid m' = 0" and "logFile m' = logFile m"
    and "writes p' = writes p" and "calls Ev_fork p' = calls Ev_fork p"
    and "calls Ev_read p' = calls Ev_read p"
    and "calls Ev_readFileDescriptor p' = calls Ev_readFileDescriptor p"
    and "calls Ev_socketpair p' = calls Ev_socketpair p"
    and "state_invariant m \<Longrightarrow> \<not> connected (channel m')"
  using assms
  by (auto simp: reap_server_def Let_def os_defs' counts_simps state_invariant_def connected_def
      split: if_splits prod.splits option.splits)

lemma close_others_counts:
  "writes (close_others n p) = writes p"
  "calls Ev_fork (close_others n p) = calls Ev_fork p"
  "calls Ev_read (close_others n p) = calls Ev_read p"
  "calls Ev_readFileDescriptor (close_others n p) = calls Ev_readFileDescriptor p"
  "calls Ev_socketpair (close_others n p) = calls Ev_socketpair p"
  by (induction n arbitrary: p; simp add: os_defs' counts_simps)+

lemma child_branch_counts:
  "writes (child_branch env m fds h p) = writes p"
  "calls Ev_fork (child_branch env m fds h p) = calls Ev_fork p"
  "calls Ev_read (child_branch env m fds h p) = calls Ev_read p"
  "calls Ev_readFileDescriptor (child_branch env m fds h p) = calls Ev_readFileDescriptor p"
  "calls Ev_socketpair (child_branch env m fds h p) = calls Ev_socketpair p"
  by (simp_all add: child_branch_def Let_def close_others_counts os_defs' counts_simps split: option.splits)

lemma restartServer_thrown:
  "restartServer env m p = (Thrown e, m', p') \<Longrightarrow> serverNeedsRestart m' \<and> pid m' = 0"
  by (auto simp: restartServer_def Let_def split: prod.splits sum.splits if_splits option.splits
      dest: reap_server_facts(1))

lemma restartServer_returned:
  "restartServer env m p = (Returned u, m', p') \<Longrightarrow>
     \<not> serverNeedsRestart m' \<and> pid m' \<noteq> 0 \<and> connected (channel m')"
  by (auto simp: restartServer_def Let_def connected_def MessageChannel_of_def os_fork_def
      split: prod.splits sum.splits if_splits option.splits)

lemma restartServer_not_undefined: "fst (restartServer env m p) \<noteq> Undefined"
  by (auto simp: restartServer_def Let_def split: prod.splits sum.splits if_splits option.splits)

lemma restartServer_counts:
  assumes "restartServer env m p = (r, m', p')"
  shows "writes p' = writes p \<and> calls Ev_read p' = calls Ev_read p
     \<and> calls Ev_readFileDescriptor p' = calls Ev_readFileDescriptor p
     \<and> calls Ev_socketpair p' = Suc (calls Ev_socketpair p)"
proof -
  obtain m1 p1 where r: "reap_server m p = (m1, p1)" by (cases "reap_server m p")
  note f = reap_server_facts[OF r]
  show ?thesis
    using assms f(3,5,6,7)
    by (auto simp: restartServer_def r Let_def os_defs' counts_simps child_branch_counts
        split: prod.splits sum.splits if_splits option.splits)
qed

lemma restartServer_invariant:
  assumes "state_invariant m" and "restartServer env m p = (r, m', p')"
  shows "state_invariant m'"
proof -
  obtain m1 p1 where r: "reap_server m p = (m1, p1)" by (cases "reap_server m p")
  note f = reap_server_facts[OF r]
  show ?thesis
    using assms(2) f(1) f(8)[OF assms(1)]
    by (auto simp: restartServer_def r Let_def os_fork_def state_invariant_def connected_def MessageChannel_of_def
        split: prod.splits sum.splits if_splits option.splits)
qed

lemma restartServer_socketpair_failure:
  assumes "socketpair_ret env = Inl errno"
  shows "\<exists>m' p'. restartServer env m p =
           (Thrown (SystemException ''Cannot create a Unix socket'' errno), m', p')
         \<and> pid m' = 0 \<and> serverNeedsRestart m'"
proof -
  obtain m1 p1 where r: "reap_server m p = (m1, p1)" by (cases "reap_server m p")
  note f = reap_server_facts[OF r]
  show ?thesis
    using assms f(1) by (simp add: restartServer_def r Let_def os_socketpair_def)
qed

lemma closed_fds:
  "d \<notin> open_fds (os_close d q)"
  "d \<notin> open_fds (os_fclose d q)"
  "d \<notin> open_fds q \<Longrightarrow> d \<notin> open_fds (os_close d' q)"
  "d \<notin> open_fds q \<Longrightarrow> d \<notin> open_fds (os_fclose d' q)"
  by (simp_all add: os_close_def os_fclose_def log_event_def)

lemma restartServer_fork_failure:
  assumes "socketpair_ret env = Inr (a, b)" and "logFile m = [] \<or> fopen_ret env \<noteq> None"
    and "fork_ret env = - 1"
  shows "\<exists>m' p'. restartServer env m p =
           (Thrown (SystemException ''Unable to fork a process'' (fork_errno env)), m', p')
         \<and> pid m' = 0 \<and> serverNeedsRestart m'
         \<and> a \<notin> open_fds p' \<and> b \<notin> open_fds p'
         \<and> (\<forall>f. logFile m \<noteq> [] \<and> fopen_ret env = Some f \<longrightarrow> f \<notin> open_fds p')"
proof -
  obtain m1 p1 where r: "reap_server m p = (m1, p1)" by (cases "reap_server m p")
  note f = reap_server_facts[OF r]
  show ?thesis
  proof (cases "logFile m = []")
    case True
    then show ?thesis
      using assms(1,3) f(2)
      by (simp add: restartServer_def r Let_def os_socketpair_def os_fork_def closed_fds)
  next
    case False
    then obtain h where h: "fopen_ret env = Some h" using assms(2) by auto
    show ?thesis
      using False h assms(1,3) f(2)
      by (simp add: restartServer_def r Let_def os_socketpair_def os_fork_def os_fopen_def closed_fds)
  qed
qed

subsection \<open>\<^verbatim>\<open>spawn()\<close>\<close>

lemma spawn_exchange_facts:
  assumes "spawn_exchange env root user grp m p = (r, m', p')"
  shows "writes p' = Suc (writes p)"
    and "calls Ev_read p' \<le> Suc (calls Ev_read p)"
    and "calls Ev_readFileDescriptor p' \<le> Suc (calls Ev_readFileDescriptor p)"
    and "calls Ev_socketpair p' = calls Ev_socketpair p"
    and "pid m' = pid m" and "channel m' = channel m"
    and "r = Thrown x \<Longrightarrow> serverNeedsRestart m' \<and> (\<exists>e. x = Plain e)"
    and "r = Returned a \<Longrightarrow> m' = m"
    and "r \<noteq> NoReturn"
  using assms
  by (auto simp: spawn_exchange_def catch_rethrow_def channel_write_def channel_read_def
      channel_readFileDescriptor_def Let_def counts_simps
      split: prod.splits sum.splits option.splits list.splits)

lemma spawn_no_restart:
  "\<not> serverNeedsRestart m \<Longrightarrow> spawn env root user grp m p = spawn_exchange env root user grp m p"
  by (simp add: spawn_def)

lemma spawn_restart:
  assumes "serverNeedsRestart m" and "restartServer env m p = (r1, m1, p1)"
  shows "spawn env root user grp m p =
     (case r1 of
        Returned u \<Rightarrow> spawn_exchange env root user grp m1 p1
      | Thrown e \<Rightarrow> (Thrown (Restart (RestartException e)), m1, p1)
      | NoReturn \<Rightarrow> (NoReturn, m1, p1)
      | Undefined \<Rightarrow> (Undefined, m1, p1))"
  using assms by (cases r1; simp add: spawn_def split: std_exception.splits)

lemma spawn_reaches_exchange:
  assumes "\<not> serverNeedsRestart m \<or> fst (restartServer env m p) = Returned ()"
  shows "\<exists>m1 p1. spawn env root user grp m p = spawn_exchange env root user grp m1 p1
     \<and> \<not> serverNeedsRestart m1
     \<and> calls Ev_readFileDescriptor p1 = calls Ev_readFileDescriptor p"
proof (cases "serverNeedsRestart m")
  case False
  then show ?thesis by (auto simp: spawn_no_restart)
next
  case True
  obtain r1 m1 p1 where r: "restartServer env m p = (r1, m1, p1)"
    by (cases "restartServer env m p")
  with True assms have r1: "r1 = Returned ()" by simp
  show ?thesis
    using spawn_restart[OF True r, of root user grp] r1 restartServer_returned[OF r[unfolded r1]]
      restartServer_counts[OF r]
    by auto
qed

lemma spawn_invariant:
  assumes "state_invariant m" and "spawn env root user grp m p = (r, m', p')"
  shows "state_invariant m'"
proof (cases "serverNeedsRestart m")
  case False
  then have x: "spawn_exchange env root user grp m p = (r, m', p')"
    using assms(2) by (simp add: spawn_no_restart)
  show ?thesis
    using assms(1) spawn_exchange_facts(5,6)[OF x] by (simp add: state_invariant_def)
next
  case True
  obtain r1 m1 p1 where r: "restartServer env m p = (r1, m1, p1)"
    by (cases "restartServer env m p")
  have i: "state_invariant m1" using restartServer_invariant[OF assms(1) r] .
  note s = spawn_restart[OF True r, of root user grp]
  show ?thesis
  proof (cases r1)
    case (Returned u)
    then have x: "spawn_exchange env root user grp m1 p1 = (r, m', p')"
      using assms(2) s by simp
    show ?thesis
      using i spawn_exchange_facts(5,6)[OF x] by (simp add: state_invariant_def)
  next
    case (Thrown e)
    then show ?thesis using assms(2) s i by simp
  next
    case NoReturn
    then show ?thesis using assms(2) s i by simp
  next
    case Undefined
    then show ?thesis using assms(2) s i by simp
  qed
qed

lemma new_invariant:
  assumes "SpawnManager_new env b cmd lf renv ruby p = (Returned m', p')"
  shows "state_invariant m'"
proof -
  let ?m0 = "\<lparr>spawnServerCommand = cmd, logFile = lf, environment = renv, rubyCommand = ruby,
            channel = MessageChannel_default, pid = 0, serverNeedsRestart = b\<rparr>"
  obtain r1 m1 p1 where r: "restartServer env ?m0 p = (r1, m1, p1)"
    by (cases "restartServer env ?m0 p")
  have "state_invariant ?m0"
    by (simp add: state_invariant_def connected_def MessageChannel_default_def)
  then have "state_invariant m1" using r by (rule restartServer_invariant)
  moreover have "m1 = m'"
    using assms r by (cases r1) (simp_all add: SpawnManager_new_def)
  ultimately show ?thesis by simp
qed

lemma destroy_running:
  assumes "pid m \<noteq> 0" and "SpawnManager_destroy m p = (m', p')"
  shows "\<not> connected (channel m') \<and> pid m' = pid m"
  using assms
  by (cases "channel_fd (channel m)")
    (auto simp: SpawnManager_destroy_def Let_def channel_close_def connected_def)

lemma spawn_failed_exchange_state:
  assumes "state_invariant m" "pid m \<noteq> 0" "\<not> serverNeedsRestart m"
    "spawn env root user grp m p = (Thrown (Plain e), m', p')"
  shows "state_invariant m' \<and> serverNeedsRestart m' \<and> pid m' \<noteq> 0"
proof -
  have x: "spawn_exchange env root user grp m p = (Thrown (Plain e), m', p')"
    using assms(3,4) by (simp add: spawn_no_restart)
  show ?thesis
    using spawn_invariant[OF assms(1,4)] spawn_exchange_facts(5)[OF x]
      spawn_exchange_facts(7)[OF x refl] assms(2) by simp
qed

lemma spawn_enters_exchange:
  assumes "(\<not> serverNeedsRestart m \<and> m1 = m \<and> p1 = p)
     \<or> (serverNeedsRestart m \<and> restartServer env m p = (Returned (), m1, p1))"
  shows "spawn env root user grp m p = spawn_exchange env root user grp m1 p1"
  using assms
proof
  assume "\<not> serverNeedsRestart m \<and> m1 = m \<and> p1 = p"
  then show ?thesis by (simp add: spawn_no_restart)
next
  assume a: "serverNeedsRestart m \<and> restartServer env m p = (Returned (), m1, p1)"
  then show ?thesis using spawn_restart[of m env p "Returned ()" m1 p1 root user grp] by simp
qed

lemma spawn_plain_exception_facts:
  assumes "spawn env root user grp m p = (Thrown (Plain e), m', p')"
  shows "serverNeedsRestart m'
     \<and> writes p' = writes p + 1
     \<and> calls Ev_read p' \<le> calls Ev_read p + 1
     \<and> calls Ev_readFileDescriptor p' \<le> calls Ev_readFileDescriptor p + 1
     \<and> calls Ev_socketpair p' \<le> calls Ev_socketpair p + 1"
proof (cases "serverNeedsRestart m")
  case False
  then have x: "spawn_exchange env root user grp m p = (Thrown (Plain e), m', p')"
    using assms by (simp add: spawn_no_restart)
  show ?thesis
    using spawn_exchange_facts(1-4)[OF x] spawn_exchange_facts(7)[OF x refl] by simp
next
  case True
  obtain r1 m1 p1 where r: "restartServer env m p = (r1, m1, p1)"
    by (cases "restartServer env m p")
  have x: "spawn_exchange env root user grp m1 p1 = (Thrown (Plain e), m', p')"
    using assms spawn_restart[OF True r, of root user grp]
    by (cases r1) simp_all
  show ?thesis
    using spawn_exchange_facts(1-4)[OF x] spawn_exchange_facts(7)[OF x refl]
      restartServer_counts[OF r] by simp
qed

lemma destroy_running_exact:
  assumes "state_invariant m" and "pid m \<noteq> 0"
  shows "\<exists>d. channel_fd (channel m) = Some d
     \<and> SpawnManager_destroy m p =
         (m\<lparr>channel := (channel m)\<lparr>channel_fd := None\<rparr>\<rparr>,
          p\<lparr>open_fds := open_fds p - {d}, trace := trace p @ [Ev_close d, Ev_waitpid (pid m)]\<rparr>)"
proof -
  from assms obtain d where d: "channel_fd (channel m) = Some d"
    by (auto simp: state_invariant_def connected_def)
  then show ?thesis
    using assms(2)
    by (simp add: SpawnManager_destroy_def Let_def channel_close_def os_close_def os_waitpid_def log_event_def)
qed

lemma new_eval:
  "SpawnManager_new example_env False ''spawn-server'' ''/var/log/spawn.log'' ''production'' ''ruby'' initial_process
    = (Returned example_manager,
       \<lparr>open_fds = {0, 1, 2, 3},
        trace = [Ev_socketpair, Ev_fopen ''/var/log/spawn.log'' ''a'', Ev_fork, Ev_close 4, Ev_fclose 5]\<rparr>)"
  by (auto simp: eval_defs)

subsection \<open>\<^verbatim>\<open>atoi\<close> on decimal numerals\<close>

lemma decimal_value_Cons:
  "decimal_value (c # cs) = nat (digit_of c) * 10 ^ length cs + decimal_value cs"
  by (simp add: decimal_value_def sum.lessThan_Suc_shift del: sum.lessThan_Suc)

lemma digit_of_nonneg: "isdigit c \<Longrightarrow> 0 \<le> digit_of c"
  by (simp add: isdigit_def digit_of_def)

lemma scan_digits_decimal:
  "list_all isdigit s \<Longrightarrow> scan_digits acc s = acc * 10 ^ length s + int (decimal_value s)"
proof (induction s arbitrary: acc)
  case Nil
  then show ?case by (simp add: decimal_value_def)
next
  case (Cons c cs)
  then show ?case
    by (simp add: decimal_value_Cons digit_of_nonneg algebra_simps)
qed

lemma isdigit_not_special:
  assumes "isdigit c"
  shows "\<not> isspace c" and "c \<noteq> CHR ''-''" and "c \<noteq> CHR ''+''" and "c \<noteq> CHR 0x00"
  using assms by (auto simp: isdigit_def isspace_def)

lemma c_str_digits: "list_all isdigit s \<Longrightarrow> c_str s = s"
  by (auto simp: c_str_def takeWhile_eq_all_conv list_all_iff dest: isdigit_not_special(4))

lemma strtol_decimal:
  assumes "is_decimal s"
  shows "strtol s = min LONG_MAX (int (decimal_value s))"
proof -
  obtain c cs where s: "s = c # cs" and c: "isdigit c" and cs: "list_all isdigit cs"
    using assms by (cases s) (auto simp: is_decimal_def)
  have "scan_digits 0 s = int (decimal_value s)"
    using scan_digits_decimal[of s 0] c cs s by simp
  then show ?thesis
    using isdigit_not_special[OF c] s
    by (simp add: strtol_def Let_def LONG_MIN_def LONG_MAX_def)
qed

lemma atoi_decimal:
  assumes "is_decimal s" and "int (decimal_value s) \<le> INT_MAX"
  shows "atoi (c_str s) = int (decimal_value s)"
proof -
  have "c_str s = s" using assms(1) by (simp add: is_decimal_def c_str_digits)
  moreover have "strtol s = int (decimal_value s)"
    using strtol_decimal[OF assms(1)] assms(2) by (simp add: INT_MAX_def LONG_MAX_def)
  ultimately show ?thesis
    using assms(2) by (simp add: atoi_def int_of_long_def INT_MAX_def)
qed

lemma atoi_range: "INT_MIN \<le> atoi s \<and> atoi s \<le> INT_MAX"
proof -
  have "0 \<le> (strtol s + 2 ^ 31) mod 2 ^ 32" "(strtol s + 2 ^ 31) mod 2 ^ 32 < 2 ^ 32"
    by simp_all
  then show ?thesis by (simp add: atoi_def int_of_long_def INT_MIN_def INT_MAX_def)
qed

lemma atoi_no_number:
  assumes "s = [] \<or> \<not> isspace (hd s) \<and> \<not> isdigit (hd s) \<and> hd s \<noteq> CHR ''-'' \<and> hd s \<noteq> CHR ''+''"
  shows "atoi (c_str s) = 0"
proof (cases "c_str s")
  case Nil
  then show ?thesis
    by (simp add: atoi_def strtol_def Let_def int_of_long_def LONG_MIN_def LONG_MAX_def)
next
  case (Cons c cs)
  then have "s \<noteq> []" and "hd s = c" by (cases s; auto simp: c_str_def split: if_splits)+
  then show ?thesis
    using assms Cons
    by (simp add: atoi_def strtol_def Let_def int_of_long_def LONG_MIN_def LONG_MAX_def)
qed

section \<open>The claims\<close>

text \<open>
  C1 as stated fails where the numeral does not fit \<^verbatim>\<open>pid_t\<close>: the helper answers
  \<^verbatim>\<open>"4294967296"\<close>, a decimal numeral, with one descriptor, and \<^verbatim>\<open>spawn()\<close> returns a
  handle whose pid is 0. The pid is a 32-bit \<^verbatim>\<open>int\<close>, so no value \<^verbatim>\<open>atoi\<close> could
  return equals 4294967296.
\<close>

theorem spawn_pid_overflow_counterexample:
  "is_decimal ''4294967296''
   \<and> int (decimal_value ''4294967296'') = 4294967296
   \<and> fst (spawn (example_env\<lparr>read_ret := Inr (Some [''4294967296''])\<rparr>) ''/app'' [] []
            example_manager example_process)
       = Returned \<lparr>appRoot = ''/app'', appPid = 0, listenSocket = 6\<rparr>"
proof -
  have d: "is_decimal ''4294967296''" by (simp add: is_decimal_def isdigit_def)
  have v: "int (decimal_value ''4294967296'') = 4294967296"
    by (simp add: decimal_value_def digit_of_def)
  have a: "atoi ''4294967296'' = 0"
    by (simp add: atoi_def strtol_def isspace_def isdigit_def digit_of_def Let_def
        LONG_MAX_def LONG_MIN_def int_of_long_def)
  show ?thesis
    using d v a by (simp add: eval_defs)
qed

text \<open>
  C1, amended: for every call \<^verbatim>\<open>spawn(rootPath, user, group)\<close> in which the request is
  written successfully (no restart was needed, or the restart succeeded), the response
  arrives with a decimal numeral of value at most \<open>INT_MAX\<close> as its first field, and
  one descriptor is passed, \<^verbatim>\<open>spawn\<close> returns a handle whose root path is the argument,
  whose pid is the decimal value of the first field, and whose listening descriptor is
  the passed one.
\<close>

theorem spawn_returns_handle:
  assumes "\<not> serverNeedsRestart m \<or> fst (restartServer env m p) = Returned ()"
    and "write_ret env = None"
    and "read_ret env = Inr (Some (field # rest))"
    and "is_decimal field"
    and "int (decimal_value field) \<le> INT_MAX"
    and "readFileDescriptor_ret env = Inr d"
  shows "\<exists>m' p'. spawn env root user grp m p =
           (Returned \<lparr>appRoot = root, appPid = int (decimal_value field), listenSocket = d\<rparr>, m', p')"
proof -
  obtain m1 p1 where x: "spawn env root user grp m p = spawn_exchange env root user grp m1 p1"
    using spawn_reaches_exchange[OF assms(1)] by blast
  show ?thesis
    using assms(2,3,6) atoi_decimal[OF assms(4,5)]
    by (simp add: x spawn_exchange_def channel_write_def channel_read_def
        channel_readFileDescriptor_def)
qed

theorem spawn_returns_handle_witness:
  "\<not> serverNeedsRestart example_manager
   \<and> write_ret example_env = None
   \<and> read_ret example_env = Inr (Some [''4242''])
   \<and> is_decimal ''4242''
   \<and> int (decimal_value ''4242'') = 4242
   \<and> readFileDescriptor_ret example_env = Inr 6
   \<and> fst (spawn example_env ''/app'' [] [] example_manager example_process)
       = Returned \<lparr>appRoot = ''/app'', appPid = 4242, listenSocket = 6\<rparr>"
proof -
  have d: "is_decimal ''4242''" by (simp add: is_decimal_def isdigit_def)
  have v: "int (decimal_value ''4242'') = 4242"
    by (simp add: decimal_value_def digit_of_def)
  have h: "\<not> serverNeedsRestart example_manager \<or> fst (restartServer example_env example_manager example_process) = Returned ()"
    by (simp add: example_manager_def)
  have "\<exists>m' p'. spawn example_env ''/app'' [] [] example_manager example_process =
           (Returned \<lparr>appRoot = ''/app'', appPid = int (decimal_value ''4242''), listenSocket = 6\<rparr>, m', p')"
    by (rule spawn_returns_handle[OF h _ _ d, of "[]" 6]) (simp_all add: example_env_def v INT_MAX_def)
  then show ?thesis
    using d v by (auto simp: example_env_def example_manager_def)
qed

text \<open>
  C2 as stated fails for the pid: the spec counts a malformed response among the failures
  of the exchange, and the code reads the pid with a bare \<^verbatim>\<open>atoi\<close> (line 251). The
  helper answers \<^verbatim>\<open>"no pid here"\<close> with one descriptor: \<^verbatim>\<open>spawn()\<close> returns a handle
  with pid 0, no error propagates and \<^verbatim>\<open>serverNeedsRestart\<close> stays false. On a response
  with no field the call takes \<^verbatim>\<open>front()\<close> of an empty vector and throws nothing by any
  rule of the language.
\<close>

theorem spawn_unparsed_pid_counterexample:
  "\<not> is_decimal ''no pid here''
   \<and> spawn (example_env\<lparr>read_ret := Inr (Some [''no pid here''])\<rparr>) ''/app'' [] []
        example_manager example_process
       = (Returned \<lparr>appRoot = ''/app'', appPid = 0, listenSocket = 6\<rparr>,
          example_manager,
          \<lparr>open_fds = {0, 1, 2, 3, 6},
           trace = [Ev_write [''spawn_application'', ''/app'', [], []], Ev_read, Ev_readFileDescriptor]\<rparr>)
   \<and> serverNeedsRestart example_manager = False
   \<and> fst (spawn (example_env\<lparr>read_ret := Inr (Some [])\<rparr>) ''/app'' [] []
             example_manager example_process) = Undefined"
proof -
  have a: "atoi ''no pid here'' = 0"
    by (simp add: atoi_def strtol_def isspace_def isdigit_def Let_def
        LONG_MAX_def LONG_MIN_def int_of_long_def)
  show ?thesis
    using a by (auto simp: eval_defs is_decimal_def isdigit_def)
qed

text \<open>
  C2, amended: for every call to \<^verbatim>\<open>spawn()\<close> that reaches the exchange (no restart was
  needed, or the restart returned, leaving the state \<open>m1\<close>, \<open>p1\<close>), if writing the
  request fails, or reading the response fails or finds the channel closed, or receiving
  the descriptor fails, then that exception propagates with \<^verbatim>\<open>serverNeedsRestart\<close> set to
  true and nothing else of the manager changed, and the call has not retried: its trace
  is one write, then at most one read, then at most one descriptor read. Conversely
  every exception of the exchange that \<^verbatim>\<open>spawn()\<close> lets out leaves the flag true, after
  exactly one write and at most one restart. Reading the pid is not among the failures:
  \<^verbatim>\<open>atoi\<close> raises nothing.
\<close>

theorem spawn_failure_flags_restart:
  assumes "(\<not> serverNeedsRestart m \<and> m1 = m \<and> p1 = p)
     \<or> (serverNeedsRestart m \<and> restartServer env m p = (Returned (), m1, p1))"
  shows "(\<forall>e. write_ret env = Some e \<longrightarrow>
            spawn env root user grp m p =
              (Thrown (Plain e), m1\<lparr>serverNeedsRestart := True\<rparr>,
               p1\<lparr>trace := trace p1 @ [Ev_write [''spawn_application'', c_str root, c_str user, c_str grp]]\<rparr>))
     \<and> (\<forall>e. write_ret env = None \<and> read_ret env = Inl e \<longrightarrow>
            spawn env root user grp m p =
              (Thrown (Plain e), m1\<lparr>serverNeedsRestart := True\<rparr>,
               p1\<lparr>trace := trace p1 @ [Ev_write [''spawn_application'', c_str root, c_str user, c_str grp],
                                         Ev_read]\<rparr>))
     \<and> (write_ret env = None \<and> read_ret env = Inr None \<longrightarrow>
            spawn env root user grp m p =
              (Thrown (Plain (IOException ''The spawn server has exited unexpectedly.'')),
               m1\<lparr>serverNeedsRestart := True\<rparr>,
               p1\<lparr>trace := trace p1 @ [Ev_write [''spawn_application'', c_str root, c_str user, c_str grp],
                                         Ev_read]\<rparr>))
     \<and> (\<forall>e field rest. write_ret env = None \<and> read_ret env = Inr (Some (field # rest))
              \<and> readFileDescriptor_ret env = Inl e \<longrightarrow>
            spawn env root user grp m p =
              (Thrown (Plain e), m1\<lparr>serverNeedsRestart := True\<rparr>,
               p1\<lparr>trace := trace p1 @ [Ev_write [''spawn_application'', c_str root, c_str user, c_str grp],
                                         Ev_read, Ev_readFileDescriptor]\<rparr>))
     \<and> (\<forall>e m' p'. spawn env root user grp m p = (Thrown (Plain e), m', p') \<longrightarrow>
            serverNeedsRestart m'
          \<and> writes p' = writes p + 1
          \<and> calls Ev_read p' \<le> calls Ev_read p + 1
          \<and> calls Ev_readFileDescriptor p' \<le> calls Ev_readFileDescriptor p + 1
          \<and> calls Ev_socketpair p' \<le> calls Ev_socketpair p + 1)"
proof -
  note x = spawn_enters_exchange[OF assms, of root user grp]
  have w: "\<forall>e. write_ret env = Some e \<longrightarrow>
            spawn env root user grp m p =
              (Thrown (Plain e), m1\<lparr>serverNeedsRestart := True\<rparr>,
               p1\<lparr>trace := trace p1 @ [Ev_write [''spawn_application'', c_str root, c_str user, c_str grp]]\<rparr>)"
    by (simp add: x spawn_exchange_def catch_rethrow_def channel_write_def log_event_def)
  have r: "\<forall>e. write_ret env = None \<and> read_ret env = Inl e \<longrightarrow>
            spawn env root user grp m p =
              (Thrown (Plain e), m1\<lparr>serverNeedsRestart := True\<rparr>,
               p1\<lparr>trace := trace p1 @ [Ev_write [''spawn_application'', c_str root, c_str user, c_str grp],
                                         Ev_read]\<rparr>)"
    by (simp add: x spawn_exchange_def catch_rethrow_def channel_write_def channel_read_def log_event_def)
  have c: "write_ret env = None \<and> read_ret env = Inr None \<longrightarrow>
            spawn env root user grp m p =
              (Thrown (Plain (IOException ''The spawn server has exited unexpectedly.'')),
               m1\<lparr>serverNeedsRestart := True\<rparr>,
               p1\<lparr>trace := trace p1 @ [Ev_write [''spawn_application'', c_str root, c_str user, c_str grp],
                                         Ev_read]\<rparr>)"
    by (simp add: x spawn_exchange_def catch_rethrow_def channel_write_def channel_read_def log_event_def)
  have d: "\<forall>e field rest. write_ret env = None \<and> read_ret env = Inr (Some (field # rest))
              \<and> readFileDescriptor_ret env = Inl e \<longrightarrow>
            spawn env root user grp m p =
              (Thrown (Plain e), m1\<lparr>serverNeedsRestart := True\<rparr>,
               p1\<lparr>trace := trace p1 @ [Ev_write [''spawn_application'', c_str root, c_str user, c_str grp],
                                         Ev_read, Ev_readFileDescriptor]\<rparr>)"
    by (simp add: x spawn_exchange_def catch_rethrow_def channel_write_def channel_read_def
        channel_readFileDescriptor_def log_event_def)
  have o: "\<forall>e m' p'. spawn env root user grp m p = (Thrown (Plain e), m', p') \<longrightarrow>
            serverNeedsRestart m'
          \<and> writes p' = writes p + 1
          \<and> calls Ev_read p' \<le> calls Ev_read p + 1
          \<and> calls Ev_readFileDescriptor p' \<le> calls Ev_readFileDescriptor p + 1
          \<and> calls Ev_socketpair p' \<le> calls Ev_socketpair p + 1"
    using spawn_plain_exception_facts by blast
  from w r c d o show ?thesis by (intro conjI)
qed

theorem spawn_failure_flags_restart_witness:
  "\<not> serverNeedsRestart example_manager
   \<and> write_ret (example_env\<lparr>write_ret := Some (SystemException ''write() failed'' 32)\<rparr>)
       = Some (SystemException ''write() failed'' 32)
   \<and> spawn (example_env\<lparr>write_ret := Some (SystemException ''write() failed'' 32)\<rparr>) ''/app'' [] []
        example_manager example_process
       = (Thrown (Plain (SystemException ''write() failed'' 32)),
          example_manager\<lparr>serverNeedsRestart := True\<rparr>,
          \<lparr>open_fds = {0, 1, 2, 3}, trace = [Ev_write [''spawn_application'', ''/app'', [], []]]\<rparr>)
   \<and> readFileDescriptor_ret (example_env\<lparr>readFileDescriptor_ret := Inl (IOException ''No file descriptor received.'')\<rparr>)
       = Inl (IOException ''No file descriptor received.'')
   \<and> spawn (example_env\<lparr>readFileDescriptor_ret := Inl (IOException ''No file descriptor received.'')\<rparr>)
        ''/app'' [] [] example_manager example_process
       = (Thrown (Plain (IOException ''No file descriptor received.'')),
          example_manager\<lparr>serverNeedsRestart := True\<rparr>,
          \<lparr>open_fds = {0, 1, 2, 3},
           trace = [Ev_write [''spawn_application'', ''/app'', [], []], Ev_read, Ev_readFileDescriptor]\<rparr>)"
proof -
  have n: "(\<not> serverNeedsRestart example_manager \<and> example_manager = example_manager
              \<and> example_process = example_process)
      \<or> (serverNeedsRestart example_manager
            \<and> restartServer env example_manager example_process
                 = (Returned (), example_manager, example_process))" for env :: env
    by (simp add: example_manager_def)
  note w = spawn_failure_flags_restart[OF n,
      where env = "example_env\<lparr>write_ret := Some (SystemException ''write() failed'' 32)\<rparr>"
        and root = "''/app''" and user = "[]" and grp = "[]"]
  note d = spawn_failure_flags_restart[OF n,
      where env = "example_env\<lparr>readFileDescriptor_ret := Inl (IOException ''No file descriptor received.'')\<rparr>"
        and root = "''/app''" and user = "[]" and grp = "[]"]
  have c: "c_str ''/app'' = ''/app''" "c_str [] = []" by (simp_all add: c_str_def)
  from w have 1: "spawn (example_env\<lparr>write_ret := Some (SystemException ''write() failed'' 32)\<rparr>) ''/app'' [] []
        example_manager example_process
       = (Thrown (Plain (SystemException ''write() failed'' 32)),
          example_manager\<lparr>serverNeedsRestart := True\<rparr>,
          \<lparr>open_fds = {0, 1, 2, 3}, trace = [Ev_write [''spawn_application'', ''/app'', [], []]]\<rparr>)"
    by (simp add: c example_env_def example_process_def)
  from d have 2: "spawn (example_env\<lparr>readFileDescriptor_ret := Inl (IOException ''No file descriptor received.'')\<rparr>)
        ''/app'' [] [] example_manager example_process
       = (Thrown (Plain (IOException ''No file descriptor received.'')),
          example_manager\<lparr>serverNeedsRestart := True\<rparr>,
          \<lparr>open_fds = {0, 1, 2, 3},
           trace = [Ev_write [''spawn_application'', ''/app'', [], []], Ev_read, Ev_readFileDescriptor]\<rparr>)"
    by (simp add: c example_env_def example_process_def)
  show ?thesis using 1 2 by (simp add: example_manager_def example_env_def)
qed

text \<open>
  C3: when \<^verbatim>\<open>spawn()\<close> is entered with \<^verbatim>\<open>serverNeedsRestart\<close> true and
  \<^verbatim>\<open>restartServer()\<close> throws \<open>e\<close> (a \<^verbatim>\<open>SystemException\<close> or an \<^verbatim>\<open>IOException\<close>),
  \<^verbatim>\<open>spawn()\<close> throws a \<^verbatim>\<open>RestartException\<close> whose \<^verbatim>\<open>getSubException()\<close> is \<open>e\<close>,
  the flag is still true afterwards, and no request has been written.
\<close>

theorem spawn_wraps_restart_failure:
  assumes "serverNeedsRestart m" and "restartServer env m p = (Thrown e, m1, p1)"
  shows "spawn env root user grp m p = (Thrown (Restart (RestartException e)), m1, p1)
     \<and> getSubException (RestartException e) = e
     \<and> serverNeedsRestart m1
     \<and> writes p1 = writes p"
  using spawn_restart[OF assms, of root user grp] restartServer_thrown[OF assms(2)]
    restartServer_counts[OF assms(2)]
  by simp

theorem spawn_wraps_restart_failure_witness:
  "serverNeedsRestart (example_manager\<lparr>serverNeedsRestart := True\<rparr>)
   \<and> restartServer (example_env\<lparr>socketpair_ret := Inl 24\<rparr>)
        (example_manager\<lparr>serverNeedsRestart := True\<rparr>) example_process
       = (Thrown (SystemException ''Cannot create a Unix socket'' 24),
          example_manager\<lparr>channel := \<lparr>channel_fd = None\<rparr>, pid := 0, serverNeedsRestart := True\<rparr>,
          \<lparr>open_fds = {0, 1, 2}, trace = [Ev_close 3, Ev_waitpid 1234, Ev_socketpair]\<rparr>)
   \<and> spawn (example_env\<lparr>socketpair_ret := Inl 24\<rparr>) ''/app'' [] []
        (example_manager\<lparr>serverNeedsRestart := True\<rparr>) example_process
       = (Thrown (Restart (RestartException (SystemException ''Cannot create a Unix socket'' 24))),
          example_manager\<lparr>channel := \<lparr>channel_fd = None\<rparr>, pid := 0, serverNeedsRestart := True\<rparr>,
          \<lparr>open_fds = {0, 1, 2}, trace = [Ev_close 3, Ev_waitpid 1234, Ev_socketpair]\<rparr>)
   \<and> getSubException (RestartException (SystemException ''Cannot create a Unix socket'' 24))
       = SystemException ''Cannot create a Unix socket'' 24"
proof -
  have n: "serverNeedsRestart (example_manager\<lparr>serverNeedsRestart := True\<rparr>)" by simp
  have ev: "restartServer (example_env\<lparr>socketpair_ret := Inl 24\<rparr>)
        (example_manager\<lparr>serverNeedsRestart := True\<rparr>) example_process
       = (Thrown (SystemException ''Cannot create a Unix socket'' 24),
          example_manager\<lparr>channel := \<lparr>channel_fd = None\<rparr>, pid := 0, serverNeedsRestart := True\<rparr>,
          \<lparr>open_fds = {0, 1, 2}, trace = [Ev_close 3, Ev_waitpid 1234, Ev_socketpair]\<rparr>)"
    by (auto simp: example_defs restartServer_def reap_server_def os_defs Let_def)
  from spawn_wraps_restart_failure[OF n ev, of "''/app''" "[]" "[]"] n ev show ?thesis by simp
qed

text \<open>
  C4 does not hold of the code. A manager with no helper and a log file that cannot be
  opened: \<^verbatim>\<open>socketpair\<close> hands out descriptors 3 and 4, \<^verbatim>\<open>fopen\<close> returns \<^verbatim>\<open>NULL\<close>,
  and line 95 throws with both descriptors still open and bound to no channel. The
  fork-failure path (lines 127-128) closes them; this path does not.
\<close>

theorem restartServer_leaks_socketpair:
  "fst (restartServer (example_env\<lparr>fopen_ret := None\<rparr>)
         (example_manager\<lparr>channel := \<lparr>channel_fd = None\<rparr>, pid := 0, serverNeedsRestart := True\<rparr>)
         initial_process)
     = Thrown (IOException ''Cannot open log file '/var/log/spawn.log' for writing.'')
   \<and> open_fds (snd (snd (restartServer (example_env\<lparr>fopen_ret := None\<rparr>)
         (example_manager\<lparr>channel := \<lparr>channel_fd = None\<rparr>, pid := 0, serverNeedsRestart := True\<rparr>)
         initial_process))) = {0, 1, 2, 3, 4}
   \<and> trace (snd (snd (restartServer (example_env\<lparr>fopen_ret := None\<rparr>)
         (example_manager\<lparr>channel := \<lparr>channel_fd = None\<rparr>, pid := 0, serverNeedsRestart := True\<rparr>)
         initial_process))) = [Ev_socketpair, Ev_fopen ''/var/log/spawn.log'' ''a'']
   \<and> channel_fd (channel (fst (snd (restartServer (example_env\<lparr>fopen_ret := None\<rparr>)
         (example_manager\<lparr>channel := \<lparr>channel_fd = None\<rparr>, pid := 0, serverNeedsRestart := True\<rparr>)
         initial_process)))) = None
   \<and> open_fds initial_process = {0, 1, 2}"
  by (auto simp: example_defs restartServer_def reap_server_def os_defs Let_def)

text \<open>
  C5 as stated fails: the helper answers \<^verbatim>\<open>"abc"\<close> with one descriptor, and
  \<^verbatim>\<open>spawn()\<close> returns a handle with pid 0 and leaves \<^verbatim>\<open>serverNeedsRestart\<close> false.
\<close>

theorem spawn_malformed_pid_counterexample:
  "\<not> is_decimal ''abc''
   \<and> spawn (example_env\<lparr>read_ret := Inr (Some [''abc''])\<rparr>) ''/app'' [] []
        example_manager example_process
       = (Returned \<lparr>appRoot = ''/app'', appPid = 0, listenSocket = 6\<rparr>,
          example_manager,
          \<lparr>open_fds = {0, 1, 2, 3, 6},
           trace = [Ev_write [''spawn_application'', ''/app'', [], []], Ev_read, Ev_readFileDescriptor]\<rparr>)
   \<and> serverNeedsRestart example_manager = False"
proof -
  have a: "atoi ''abc'' = 0"
    by (simp add: atoi_def strtol_def isspace_def isdigit_def Let_def
        LONG_MAX_def LONG_MIN_def int_of_long_def)
  show ?thesis
    using a by (auto simp: eval_defs is_decimal_def isdigit_def)
qed

text \<open>
  C5, amended: for every call to \<^verbatim>\<open>spawn()\<close> in which a response is received whose first
  field is present but is not a decimal numeral, and a descriptor is passed,
  \<^verbatim>\<open>spawn()\<close> raises no error: it returns a handle whose pid is what \<^verbatim>\<open>atoi\<close> reads
  from the field (an \<^verbatim>\<open>int\<close>; 0 when the field is empty or starts with a byte that is
  neither white space, a sign nor a digit) and leaves \<^verbatim>\<open>serverNeedsRestart\<close> false. A
  response with no field at all is outside this statement: line 251 takes
  \<^verbatim>\<open>front()\<close> of an empty vector.
\<close>

theorem spawn_accepts_malformed_pid:
  assumes "\<not> serverNeedsRestart m \<or> fst (restartServer env m p) = Returned ()"
    and "write_ret env = None"
    and "read_ret env = Inr (Some (field # rest))"
    and "\<not> is_decimal field"
    and "readFileDescriptor_ret env = Inr d"
  shows "\<exists>m' p'. spawn env root user grp m p =
           (Returned \<lparr>appRoot = root, appPid = atoi (c_str field), listenSocket = d\<rparr>, m', p')
         \<and> \<not> serverNeedsRestart m'
         \<and> INT_MIN \<le> atoi (c_str field) \<and> atoi (c_str field) \<le> INT_MAX
         \<and> (field = [] \<or> \<not> isspace (hd field) \<and> \<not> isdigit (hd field)
                \<and> hd field \<noteq> CHR ''-'' \<and> hd field \<noteq> CHR ''+''
              \<longrightarrow> atoi (c_str field) = 0)"
proof -
  obtain m1 p1 where x: "spawn env root user grp m p = spawn_exchange env root user grp m1 p1"
    and f: "\<not> serverNeedsRestart m1"
    using spawn_reaches_exchange[OF assms(1)] by blast
  show ?thesis
    using assms(2,3,5) f atoi_range[of "c_str field"] atoi_no_number[of field]
    by (auto simp: x spawn_exchange_def channel_write_def channel_read_def
        channel_readFileDescriptor_def)
qed

theorem spawn_accepts_malformed_pid_witness:
  "\<not> serverNeedsRestart example_manager
   \<and> \<not> is_decimal ''12 workers''
   \<and> fst (spawn (example_env\<lparr>read_ret := Inr (Some [''12 workers'', ''x''])\<rparr>) ''/app'' [] []
        example_manager example_process)
       = Returned \<lparr>appRoot = ''/app'', appPid = 12, listenSocket = 6\<rparr>
   \<and> atoi (c_str ''12 workers'') = 12"
proof -
  have a: "atoi (c_str ''12 workers'') = 12"
    by (simp add: atoi_def c_str_def strtol_def isspace_def isdigit_def digit_of_def Let_def
        LONG_MAX_def LONG_MIN_def int_of_long_def)
  have nd: "\<not> is_decimal ''12 workers''" by (simp add: is_decimal_def isdigit_def)
  have h: "\<not> serverNeedsRestart example_manager \<or> fst (restartServer (example_env\<lparr>read_ret := Inr (Some [''12 workers'', ''x''])\<rparr>) example_manager example_process) = Returned ()"
    by (simp add: example_manager_def)
  from spawn_accepts_malformed_pid[OF h _ _ nd, of "[''x'']" 6 "''/app''" "[]" "[]"] a nd
  show ?thesis by (auto simp: example_env_def example_manager_def)
qed

text \<open>
  C6: for every call to \<^verbatim>\<open>spawn()\<close> that writes its request and whose read finds the
  channel closed with no message, \<^verbatim>\<open>spawn()\<close> throws the \<^verbatim>\<open>IOException\<close> "The spawn
  server has exited unexpectedly.", sets \<^verbatim>\<open>serverNeedsRestart\<close> and does not ask for a
  descriptor; a read that fails with an exception \<open>e\<close> makes \<^verbatim>\<open>spawn()\<close> throw that
  \<open>e\<close> instead.
\<close>

theorem spawn_reports_clean_close:
  assumes "\<not> serverNeedsRestart m \<or> fst (restartServer env m p) = Returned ()"
    and "write_ret env = None"
  shows "(read_ret env = Inr None \<longrightarrow>
            (\<exists>m' p'. spawn env root user grp m p =
                 (Thrown (Plain (IOException ''The spawn server has exited unexpectedly.'')), m', p')
               \<and> serverNeedsRestart m'
               \<and> calls Ev_readFileDescriptor p' = calls Ev_readFileDescriptor p))
       \<and> (\<forall>e. read_ret env = Inl e \<longrightarrow>
            (\<exists>m' p'. spawn env root user grp m p = (Thrown (Plain e), m', p')))"
proof -
  obtain m1 p1 where x: "spawn env root user grp m p = spawn_exchange env root user grp m1 p1"
    and c: "calls Ev_readFileDescriptor p1 = calls Ev_readFileDescriptor p"
    using spawn_reaches_exchange[OF assms(1)] by blast
  show ?thesis
    using assms(2) c
    by (auto simp: x spawn_exchange_def catch_rethrow_def channel_write_def channel_read_def
        counts_simps)
qed

theorem spawn_reports_clean_close_witness:
  "\<not> serverNeedsRestart example_manager
   \<and> write_ret (example_env\<lparr>read_ret := Inr None\<rparr>) = None
   \<and> fst (spawn (example_env\<lparr>read_ret := Inr None\<rparr>) ''/app'' [] [] example_manager example_process)
       = Thrown (Plain (IOException ''The spawn server has exited unexpectedly.''))
   \<and> write_ret (example_env\<lparr>read_ret := Inl (SystemException ''read() failed'' 104)\<rparr>) = None
   \<and> fst (spawn (example_env\<lparr>read_ret := Inl (SystemException ''read() failed'' 104)\<rparr>) ''/app'' [] []
            example_manager example_process)
       = Thrown (Plain (SystemException ''read() failed'' 104))"
proof -
  have n: "\<not> serverNeedsRestart example_manager" by (simp add: example_manager_def)
  have w1: "write_ret (example_env\<lparr>read_ret := Inr None\<rparr>) = None"
    and w2: "write_ret (example_env\<lparr>read_ret := Inl (SystemException ''read() failed'' 104)\<rparr>) = None"
    by (simp_all add: example_env_def)
  from spawn_reports_clean_close[OF disjI1[OF n] w1, where p = example_process and root = "''/app''" and user = "[]" and grp = "[]"]
    spawn_reports_clean_close[OF disjI1[OF n] w2, where p = example_process and root = "''/app''" and user = "[]" and grp = "[]"]
    n w1 w2
  show ?thesis by auto
qed

text \<open>
  C7: for every call to \<^verbatim>\<open>restartServer()\<close> with a non-empty \<^verbatim>\<open>logFile\<close> in which the
  log file is opened (the socket pair was created, lines 86-90) and \<^verbatim>\<open>fopen\<close> returns
  \<^verbatim>\<open>NULL\<close>, the call throws the \<^verbatim>\<open>IOException\<close> of lines 92-95, the file
  (\<^verbatim>\<open>logFile.c_str()\<close>) was opened in mode \<^verbatim>\<open>"a"\<close>, and the call has not forked.
\<close>

theorem restartServer_log_failure_before_fork:
  assumes "logFile m \<noteq> []" and "socketpair_ret env = Inr fds" and "fopen_ret env = None"
  shows "\<exists>m' p'. restartServer env m p =
           (Thrown (IOException (''Cannot open log file '' @ [CHR 0x27] @ logFile m @ [CHR 0x27] @ '' for writing.'')), m', p')
         \<and> Ev_fopen (c_str (logFile m)) ''a'' \<in> set (trace p')
         \<and> calls Ev_fork p' = calls Ev_fork p"
proof -
  obtain m1 p1 where r: "reap_server m p = (m1, p1)" by (cases "reap_server m p")
  note f = reap_server_facts[OF r]
  obtain a b where fds: "fds = (a, b)" by (cases fds)
  have "restartServer env m p =
      (Thrown (IOException (''Cannot open log file '' @ [CHR 0x27] @ logFile m @ [CHR 0x27] @ '' for writing.'')),
       m1\<lparr>serverNeedsRestart := True\<rparr>,
       log_event (Ev_fopen (c_str (logFile m)) ''a'') (log_event Ev_socketpair (p1\<lparr>open_fds := open_fds p1 \<union> {a, b}\<rparr>)))"
    using assms f(2) fds
    by (simp add: restartServer_def r Let_def os_socketpair_def os_fopen_def)
  moreover have "Ev_fopen (c_str (logFile m)) ''a'' \<in> set (trace (log_event (Ev_fopen (c_str (logFile m)) ''a'') q))" for q
    by (simp add: log_event_def)
  moreover have "calls Ev_fork (log_event (Ev_fopen (c_str (logFile m)) ''a'') (log_event Ev_socketpair (p1\<lparr>open_fds := open_fds p1 \<union> {a, b}\<rparr>))) = calls Ev_fork p"
    using f(4) by (simp add: counts_simps)
  ultimately show ?thesis by blast
qed

theorem restartServer_log_failure_before_fork_witness:
  "logFile example_manager \<noteq> []
   \<and> socketpair_ret (example_env\<lparr>fopen_ret := None\<rparr>) = Inr (3, 4)
   \<and> fopen_ret (example_env\<lparr>fopen_ret := None\<rparr>) = None
   \<and> fst (restartServer (example_env\<lparr>fopen_ret := None\<rparr>) example_manager example_process)
       = Thrown (IOException ''Cannot open log file '/var/log/spawn.log' for writing.'')
   \<and> trace (snd (snd (restartServer (example_env\<lparr>fopen_ret := None\<rparr>) example_manager example_process)))
       = [Ev_close 3, Ev_waitpid 1234, Ev_socketpair, Ev_fopen ''/var/log/spawn.log'' ''a'']
   \<and> trace (snd (snd (restartServer (example_env\<lparr>fopen_ret := None\<rparr>)
          (example_manager\<lparr>logFile := ''/nonexistent-dir/a'' @ [CHR 0x00] @ ''.log''\<rparr>) example_process)))
       = [Ev_close 3, Ev_waitpid 1234, Ev_socketpair, Ev_fopen ''/nonexistent-dir/a'' ''a'']"
proof -
  have a: "logFile example_manager \<noteq> []" by (simp add: example_manager_def)
  have b: "socketpair_ret (example_env\<lparr>fopen_ret := None\<rparr>) = Inr (3, 4)"
    and c: "fopen_ret (example_env\<lparr>fopen_ret := None\<rparr>) = None"
    by (simp_all add: example_env_def)
  have t: "trace (snd (snd (restartServer (example_env\<lparr>fopen_ret := None\<rparr>) example_manager example_process)))
       = [Ev_close 3, Ev_waitpid 1234, Ev_socketpair, Ev_fopen ''/var/log/spawn.log'' ''a'']"
    by (simp add: example_defs restartServer_def reap_server_def os_defs Let_def)
  have u: "trace (snd (snd (restartServer (example_env\<lparr>fopen_ret := None\<rparr>)
          (example_manager\<lparr>logFile := ''/nonexistent-dir/a'' @ [CHR 0x00] @ ''.log''\<rparr>) example_process)))
       = [Ev_close 3, Ev_waitpid 1234, Ev_socketpair, Ev_fopen ''/nonexistent-dir/a'' ''a'']"
    by (simp add: example_defs restartServer_def reap_server_def os_defs Let_def)
  from restartServer_log_failure_before_fork[OF a b c, of example_process] a b c t u
  show ?thesis by (auto simp: example_manager_def)
qed

text \<open>
  C8: when \<^verbatim>\<open>socketpair\<close> fails, \<^verbatim>\<open>restartServer()\<close> throws a \<^verbatim>\<open>SystemException\<close> and
  leaves \<^verbatim>\<open>pid = 0\<close> and \<^verbatim>\<open>serverNeedsRestart\<close> true; when \<^verbatim>\<open>fork\<close> fails it does the
  same, and both descriptors of the socket pair and the log file (when one was opened)
  are closed in the state the exception leaves.
\<close>

theorem restartServer_setup_failure:
  "(\<forall>errno. socketpair_ret env = Inl errno \<longrightarrow>
      (\<exists>m' p'. restartServer env m p =
           (Thrown (SystemException ''Cannot create a Unix socket'' errno), m', p')
         \<and> pid m' = 0 \<and> serverNeedsRestart m'))
   \<and> (\<forall>a b. socketpair_ret env = Inr (a, b) \<and> (logFile m = [] \<or> fopen_ret env \<noteq> None)
          \<and> fork_ret env = - 1 \<longrightarrow>
      (\<exists>m' p'. restartServer env m p =
           (Thrown (SystemException ''Unable to fork a process'' (fork_errno env)), m', p')
         \<and> pid m' = 0 \<and> serverNeedsRestart m'
         \<and> a \<notin> open_fds p' \<and> b \<notin> open_fds p'
         \<and> (\<forall>f. logFile m \<noteq> [] \<and> fopen_ret env = Some f \<longrightarrow> f \<notin> open_fds p')))"
proof (intro conjI allI impI)
  fix errno assume "socketpair_ret env = Inl errno"
  then show "\<exists>m' p'. restartServer env m p =
           (Thrown (SystemException ''Cannot create a Unix socket'' errno), m', p')
         \<and> pid m' = 0 \<and> serverNeedsRestart m'"
    by (rule restartServer_socketpair_failure)
next
  fix a b
  assume h: "socketpair_ret env = Inr (a, b) \<and> (logFile m = [] \<or> fopen_ret env \<noteq> None)
          \<and> fork_ret env = - 1"
  show "\<exists>m' p'. restartServer env m p =
           (Thrown (SystemException ''Unable to fork a process'' (fork_errno env)), m', p')
         \<and> pid m' = 0 \<and> serverNeedsRestart m'
         \<and> a \<notin> open_fds p' \<and> b \<notin> open_fds p'
         \<and> (\<forall>f. logFile m \<noteq> [] \<and> fopen_ret env = Some f \<longrightarrow> f \<notin> open_fds p')"
    using h restartServer_fork_failure[of env a b m p] by blast
qed

theorem restartServer_setup_failure_witness:
  "socketpair_ret (example_env\<lparr>socketpair_ret := Inl 24\<rparr>) = Inl 24
   \<and> restartServer (example_env\<lparr>socketpair_ret := Inl 24\<rparr>) example_manager example_process
       = (Thrown (SystemException ''Cannot create a Unix socket'' 24),
          example_manager\<lparr>channel := \<lparr>channel_fd = None\<rparr>, pid := 0, serverNeedsRestart := True\<rparr>,
          \<lparr>open_fds = {0, 1, 2}, trace = [Ev_close 3, Ev_waitpid 1234, Ev_socketpair]\<rparr>)
   \<and> fork_ret (example_env\<lparr>fork_ret := - 1, fork_errno := 11\<rparr>) = - 1
   \<and> fst (restartServer (example_env\<lparr>fork_ret := - 1, fork_errno := 11\<rparr>) example_manager example_process)
       = Thrown (SystemException ''Unable to fork a process'' 11)
   \<and> pid (fst (snd (restartServer (example_env\<lparr>fork_ret := - 1, fork_errno := 11\<rparr>) example_manager example_process))) = 0
   \<and> serverNeedsRestart (fst (snd (restartServer (example_env\<lparr>fork_ret := - 1, fork_errno := 11\<rparr>) example_manager example_process)))
   \<and> open_fds (snd (snd (restartServer (example_env\<lparr>fork_ret := - 1, fork_errno := 11\<rparr>) example_manager example_process)))
       = {0, 1, 2}"
proof -
  have o: "open_fds (snd (snd (restartServer (example_env\<lparr>fork_ret := - 1, fork_errno := 11\<rparr>) example_manager example_process)))
       = {0, 1, 2}"
    by (auto simp: example_defs restartServer_def reap_server_def os_defs Let_def)
  have e: "restartServer (example_env\<lparr>socketpair_ret := Inl 24\<rparr>) example_manager example_process
       = (Thrown (SystemException ''Cannot create a Unix socket'' 24),
          example_manager\<lparr>channel := \<lparr>channel_fd = None\<rparr>, pid := 0, serverNeedsRestart := True\<rparr>,
          \<lparr>open_fds = {0, 1, 2}, trace = [Ev_close 3, Ev_waitpid 1234, Ev_socketpair]\<rparr>)"
    by (auto simp: example_defs restartServer_def reap_server_def os_defs Let_def)
  have s1: "socketpair_ret (example_env\<lparr>socketpair_ret := Inl 24\<rparr>) = Inl 24"
    and s2: "socketpair_ret (example_env\<lparr>fork_ret := - 1, fork_errno := 11\<rparr>) = Inr (3, 4)"
    and s3: "fopen_ret (example_env\<lparr>fork_ret := - 1, fork_errno := 11\<rparr>) \<noteq> None"
    and s4: "fork_ret (example_env\<lparr>fork_ret := - 1, fork_errno := 11\<rparr>) = - 1"
    and s5: "fork_errno (example_env\<lparr>fork_ret := - 1, fork_errno := 11\<rparr>) = 11"
    by (simp_all add: example_env_def)
  from restartServer_setup_failure[of "example_env\<lparr>fork_ret := - 1, fork_errno := 11\<rparr>" example_manager example_process]
    s2 s3 s4
  obtain m' p' where r: "restartServer (example_env\<lparr>fork_ret := - 1, fork_errno := 11\<rparr>) example_manager example_process =
           (Thrown (SystemException ''Unable to fork a process'' (fork_errno (example_env\<lparr>fork_ret := - 1, fork_errno := 11\<rparr>))), m', p')"
     and "pid m' = 0" and "serverNeedsRestart m'"
    by blast
  then show ?thesis using o e s1 s4 s5 by simp
qed

text \<open>
  C9 as stated fails for teardown: the destructor of a manager with a running helper
  closes the channel and waits, and does not write \<^verbatim>\<open>pid\<close>; at the end of its body the
  channel is unbound while \<^verbatim>\<open>pid\<close> is still 1234.
\<close>

theorem teardown_breaks_invariant_counterexample:
  "SpawnManager_new example_env False ''spawn-server'' ''/var/log/spawn.log'' ''production'' ''ruby'' initial_process
     = (Returned example_manager,
        \<lparr>open_fds = {0, 1, 2, 3},
         trace = [Ev_socketpair, Ev_fopen ''/var/log/spawn.log'' ''a'', Ev_fork, Ev_close 4, Ev_fclose 5]\<rparr>)
   \<and> state_invariant example_manager
   \<and> SpawnManager_destroy example_manager example_process
       = (example_manager\<lparr>channel := \<lparr>channel_fd = None\<rparr>\<rparr>,
          \<lparr>open_fds = {0, 1, 2}, trace = [Ev_close 3, Ev_waitpid 1234]\<rparr>)
   \<and> pid (example_manager\<lparr>channel := \<lparr>channel_fd = None\<rparr>\<rparr>) = 1234
   \<and> \<not> connected (channel (example_manager\<lparr>channel := \<lparr>channel_fd = None\<rparr>\<rparr>))
   \<and> \<not> state_invariant (example_manager\<lparr>channel := \<lparr>channel_fd = None\<rparr>\<rparr>)"
  using new_eval
  by (auto simp: example_defs SpawnManager_destroy_def os_defs Let_def state_invariant_def connected_def)

text \<open>
  C9, amended: the invariant (\<^verbatim>\<open>pid == 0\<close> exactly when the channel is unbound) holds of
  every manager the constructor returns, and is preserved by \<^verbatim>\<open>restartServer()\<close> and by
  every \<^verbatim>\<open>spawn()\<close> that returns or throws. Teardown changes nothing when no helper is
  tracked. With a helper it closes the channel (the channel's descriptor \<open>d\<close> is closed
  and the channel left unbound) and reaps the helper (\<^verbatim>\<open>waitpid\<close> on \<^verbatim>\<open>pid\<close>), in that
  order and doing nothing else, and leaves \<^verbatim>\<open>pid\<close> as it was. A failed exchange leaves
  \<^verbatim>\<open>serverNeedsRestart\<close> true while \<^verbatim>\<open>pid\<close> is not 0, within the invariant.
\<close>

theorem invariant_construction_spawn_restart:
  "(\<forall>m' p'. SpawnManager_new env b cmd lf renv ruby p = (Returned m', p') \<longrightarrow> state_invariant m')
   \<and> (\<forall>r m' p'. state_invariant m \<and> restartServer env m p = (r, m', p') \<longrightarrow> state_invariant m')
   \<and> (\<forall>r m' p'. state_invariant m \<and> spawn env root user grp m p = (r, m', p') \<and> r \<noteq> Undefined
         \<longrightarrow> state_invariant m')
   \<and> (pid m = 0 \<longrightarrow> SpawnManager_destroy m p = (m, p))
   \<and> (\<forall>m' p'. pid m \<noteq> 0 \<and> SpawnManager_destroy m p = (m', p')
         \<longrightarrow> \<not> connected (channel m') \<and> pid m' = pid m)
   \<and> (state_invariant m \<and> pid m \<noteq> 0 \<longrightarrow>
         (\<exists>d. channel_fd (channel m) = Some d
            \<and> SpawnManager_destroy m p =
                (m\<lparr>channel := (channel m)\<lparr>channel_fd := None\<rparr>\<rparr>,
                 p\<lparr>open_fds := open_fds p - {d},
                   trace := trace p @ [Ev_close d, Ev_waitpid (pid m)]\<rparr>)))
   \<and> (\<forall>e m' p'. state_invariant m \<and> pid m \<noteq> 0 \<and> \<not> serverNeedsRestart m
         \<and> spawn env root user grp m p = (Thrown (Plain e), m', p')
         \<longrightarrow> state_invariant m' \<and> serverNeedsRestart m' \<and> pid m' \<noteq> 0)"
proof -
  have 1: "\<forall>m' p'. SpawnManager_new env b cmd lf renv ruby p = (Returned m', p') \<longrightarrow> state_invariant m'"
    using new_invariant by blast
  have 2: "\<forall>r m' p'. state_invariant m \<and> restartServer env m p = (r, m', p') \<longrightarrow> state_invariant m'"
    using restartServer_invariant by blast
  have 3: "\<forall>r m' p'. state_invariant m \<and> spawn env root user grp m p = (r, m', p') \<and> r \<noteq> Undefined
         \<longrightarrow> state_invariant m'"
    using spawn_invariant by blast
  have 4: "pid m = 0 \<longrightarrow> SpawnManager_destroy m p = (m, p)"
    by (simp add: SpawnManager_destroy_def)
  have 5: "\<forall>m' p'. pid m \<noteq> 0 \<and> SpawnManager_destroy m p = (m', p')
         \<longrightarrow> \<not> connected (channel m') \<and> pid m' = pid m"
    using destroy_running by blast
  have 6: "state_invariant m \<and> pid m \<noteq> 0 \<longrightarrow>
         (\<exists>d. channel_fd (channel m) = Some d
            \<and> SpawnManager_destroy m p =
                (m\<lparr>channel := (channel m)\<lparr>channel_fd := None\<rparr>\<rparr>,
                 p\<lparr>open_fds := open_fds p - {d},
                   trace := trace p @ [Ev_close d, Ev_waitpid (pid m)]\<rparr>))"
    using destroy_running_exact by blast
  have 7: "\<forall>e m' p'. state_invariant m \<and> pid m \<noteq> 0 \<and> \<not> serverNeedsRestart m
         \<and> spawn env root user grp m p = (Thrown (Plain e), m', p')
         \<longrightarrow> state_invariant m' \<and> serverNeedsRestart m' \<and> pid m' \<noteq> 0"
    using spawn_failed_exchange_state by blast
  from 1 2 3 4 5 6 7 show ?thesis by (intro conjI)
qed

theorem invariant_construction_spawn_restart_witness:
  "state_invariant example_manager
   \<and> pid example_manager = 1234
   \<and> state_invariant (fst (snd (restartServer (example_env\<lparr>fork_ret := - 1\<rparr>) example_manager example_process)))
   \<and> state_invariant (fst (snd (spawn example_env ''/app'' [] [] example_manager example_process)))
   \<and> fst (spawn (example_env\<lparr>read_ret := Inr None\<rparr>) ''/app'' [] [] example_manager example_process)
        = Thrown (Plain (IOException ''The spawn server has exited unexpectedly.''))
   \<and> state_invariant (fst (snd (spawn (example_env\<lparr>read_ret := Inr None\<rparr>) ''/app'' [] [] example_manager example_process)))
   \<and> serverNeedsRestart (fst (snd (spawn (example_env\<lparr>read_ret := Inr None\<rparr>) ''/app'' [] [] example_manager example_process)))
   \<and> pid (fst (snd (spawn (example_env\<lparr>read_ret := Inr None\<rparr>) ''/app'' [] [] example_manager example_process))) = 1234
   \<and> SpawnManager_destroy (example_manager\<lparr>channel := \<lparr>channel_fd = None\<rparr>, pid := 0\<rparr>) initial_process
        = (example_manager\<lparr>channel := \<lparr>channel_fd = None\<rparr>, pid := 0\<rparr>, initial_process)
   \<and> SpawnManager_destroy example_manager example_process
        = (example_manager\<lparr>channel := \<lparr>channel_fd = None\<rparr>\<rparr>,
           \<lparr>open_fds = {0, 1, 2}, trace = [Ev_close 3, Ev_waitpid 1234]\<rparr>)"
proof -
  note t = invariant_construction_spawn_restart
  have i: "state_invariant example_manager"
    using t[of example_env False "''spawn-server''" "''/var/log/spawn.log''" "''production''" "''ruby''" initial_process]
      new_eval by blast
  have p: "pid example_manager = 1234" "\<not> serverNeedsRestart example_manager"
    by (simp_all add: example_manager_def)
  have r: "state_invariant (fst (snd (restartServer (example_env\<lparr>fork_ret := - 1\<rparr>) example_manager example_process)))"
    using t[where env = "example_env\<lparr>fork_ret := - 1\<rparr>" and m = example_manager and p = example_process] i
    by (metis prod.collapse)
  have e: "spawn (example_env\<lparr>read_ret := Inr None\<rparr>) ''/app'' [] [] example_manager example_process
      = (Thrown (Plain (IOException ''The spawn server has exited unexpectedly.'')),
         example_manager\<lparr>serverNeedsRestart := True\<rparr>,
         \<lparr>open_fds = {0, 1, 2, 3}, trace = [Ev_write [''spawn_application'', ''/app'', [], []], Ev_read]\<rparr>)"
    by (simp add: eval_defs)
  have f: "state_invariant (example_manager\<lparr>serverNeedsRestart := True\<rparr>)
      \<and> serverNeedsRestart (example_manager\<lparr>serverNeedsRestart := True\<rparr>)
      \<and> pid (example_manager\<lparr>serverNeedsRestart := True\<rparr>) \<noteq> 0"
    using t[where env = "example_env\<lparr>read_ret := Inr None\<rparr>" and m = example_manager and p = example_process
        and root = "''/app''" and user = "[]" and grp = "[]"] i p e
    by (metis zero_neq_numeral)
  have s: "state_invariant (fst (snd (spawn example_env ''/app'' [] [] example_manager example_process)))"
    by (simp add: eval_defs atoi_def state_invariant_def connected_def)
  have d: "SpawnManager_destroy (example_manager\<lparr>channel := \<lparr>channel_fd = None\<rparr>, pid := 0\<rparr>) initial_process
        = (example_manager\<lparr>channel := \<lparr>channel_fd = None\<rparr>, pid := 0\<rparr>, initial_process)"
    by (simp add: SpawnManager_destroy_def)
  have k: "SpawnManager_destroy example_manager example_process
        = (example_manager\<lparr>channel := \<lparr>channel_fd = None\<rparr>\<rparr>,
           \<lparr>open_fds = {0, 1, 2}, trace = [Ev_close 3, Ev_waitpid 1234]\<rparr>)"
  proof -
    note t6 = t[where env = example_env and m = example_manager and p = example_process
        and root = "[]" and user = "[]" and grp = "[]" and b = False and cmd = "[]"
        and lf = "[]" and renv = "[]" and ruby = "[]",
        THEN conjunct2, THEN conjunct2, THEN conjunct2, THEN conjunct2, THEN conjunct2,
        THEN conjunct1]
    from t6 i p obtain c where c: "channel_fd (channel example_manager) = Some c"
      and q: "SpawnManager_destroy example_manager example_process =
          (example_manager\<lparr>channel := (channel example_manager)\<lparr>channel_fd := None\<rparr>\<rparr>,
           example_process\<lparr>open_fds := open_fds example_process - {c},
             trace := trace example_process @ [Ev_close c, Ev_waitpid (pid example_manager)]\<rparr>)"
      by auto
    from c have "c = 3" by (simp add: example_manager_def MessageChannel_of_def)
    with q show ?thesis by (auto simp: example_defs)
  qed
  show ?thesis using i p r e f s d k by simp
qed

section \<open>Properties of the status extractor\<close>

text \<open>The position handed to the first \<^verbatim>\<open>substr\<close> lies within the buffer.\<close>

lemma find_sub_bounds:
  "find_sub pat s i = Some j \<Longrightarrow> i \<le> j \<and> j + length pat \<le> i + length s"
proof (induction s arbitrary: i)
  case Nil
  then show ?case by (simp split: if_splits)
next
  case (Cons c cs)
  show ?case
  proof (cases "take (length pat) (c # cs) = pat")
    case True
    then have "length (take (length pat) (c # cs)) = length pat" by simp
    then have "length pat \<le> length (c # cs)" by (simp del: take_Suc_Cons)
    with True Cons.prems show ?thesis by simp
  next
    case False
    with Cons.prems have "find_sub pat cs (Suc i) = Some j" by simp
    from Cons.IH[OF this] show ?thesis by simp
  qed
qed

lemma string_find_in_range:
  assumes "string_find s pat pos \<noteq> npos" and "length s < 2 ^ 64"
  shows "unat (string_find s pat pos) + length pat \<le> length s"
proof -
  from assms(1) obtain j where j: "find_sub pat (drop (unat pos) s) (unat pos) = Some j"
    and p: "unat pos \<le> length s" and f: "string_find s pat pos = of_nat j"
    by (auto simp: string_find_def split: if_splits option.splits)
  from find_sub_bounds[OF j] p have b: "j + length pat \<le> length s" by simp
  then have "j < 2 ^ 64" using assms(2) by simp
  then have "unat (of_nat j :: 64 word) = j" by (simp add: unat_of_nat)
  with b f show ?thesis by simp
qed

lemma status_positions_in_range:
  assumes "fst (status_positions buf) \<noteq> npos" and "length buf < 2 ^ 64"
  shows "unat (fst (status_positions buf)) \<le> length buf"
proof (cases "length buf > length statusHeaderName
         \<and> take (length statusHeaderName) buf = statusHeaderName")
  case True
  then show ?thesis
    by (simp add: status_positions_def statusHeaderName_def)
next
  case False
  let ?f = "string_find buf ([CR, LF] @ statusHeaderName) 0"
  have n: "?f \<noteq> npos"
  proof
    assume "?f = npos"
    then have "status_positions buf = (npos, 0)"
      unfolding status_positions_def Let_def by (simp only: if_not_P[OF False] simp_thms if_False)
    with assms(1) show False by simp
  qed
  from string_find_in_range[OF n assms(2)]
  have b: "unat ?f + 10 \<le> length buf" by (simp add: statusHeaderName_def)
  then have "unat ?f + 10 < 2 ^ 64" using assms(2) by simp
  then have "unat (?f + 10) = unat ?f + 10"
    by (simp add: unat_add_lem[THEN iffD1])
  moreover have "status_positions buf =
      (?f + 2 + of_nat (length statusHeaderName),
       string_find buf [CR, LF] (?f + 2 + of_nat (length statusHeaderName)) + 2)"
    unfolding status_positions_def Let_def using n by (simp only: if_not_P[OF False] if_True simp_thms)
  then have "fst (status_positions buf) = ?f + 10"
    by (simp add: statusHeaderName_def)
  ultimately show ?thesis using b by simp
qed

text \<open>On a buffer of at most 4 GiB the loop of \<^verbatim>\<open>feed()\<close> ends.\<close>

lemma feed_loop_returns:
  "length (buffer s) \<le> 2 ^ 32 \<Longrightarrow> \<exists>y. feed_loop s = Some y"
proof (induction "length (buffer s) - unat (searchStart s)" arbitrary: s rule: less_induct)
  case less
  show ?case
  proof (cases "3 \<le> length (buffer s) \<and> unat (searchStart s) < length (buffer s) - 3")
    case False
    then show ?thesis by (subst feed_loop.simps) auto
  next
    case True
    let ?s = "s\<lparr>searchStart := searchStart s + 1\<rparr>"
    have "unat (searchStart s) + unat (1 :: 32 word) < 2 ^ LENGTH(32)"
      using True less.prems by (simp, arith)
    then have u: "unat (searchStart s + 1) = unat (searchStart s) + 1"
      by (simp add: unat_add_lem[THEN iffD1])
    have "length (buffer ?s) - unat (searchStart ?s) < length (buffer s) - unat (searchStart s)"
      using True u by (simp, arith)
    moreover have "length (buffer ?s) \<le> 2 ^ 32" using less.prems by simp
    ultimately obtain y where y: "feed_loop ?s = Some y"
      using less.hyps by blast
    show ?thesis
      by (subst feed_loop.simps) (auto simp: True y)
  qed
qed


lemma extractStatusLine_keeps:
  "fullHeaderReceived (snd (extractStatusLine s)) = fullHeaderReceived s"
  "buffer (snd (extractStatusLine s)) = buffer s"
  "searchStart (snd (extractStatusLine s)) = searchStart s"
  by (simp_all add: extractStatusLine_def Let_def split: prod.splits option.splits)

lemma feed_loop_true:
  assumes "feed_loop s = Some y"
  shows "fst y \<longrightarrow> fullHeaderReceived (snd y)"
  using assms
proof (rule feed_loop.raw_induct[rotated 1, where P = "\<lambda>s y. fst y \<longrightarrow> fullHeaderReceived (snd y)"])
  fix loop s y
  assume ih: "\<And>s y. loop s = Some y \<Longrightarrow> fst y \<longrightarrow> fullHeaderReceived (snd y)"
    and body: "(if 3 \<le> length (buffer s) \<and> unat (searchStart s) < length (buffer s) - 3
         then if buffer s ! unat (searchStart s) = CR \<and>
                 buffer s ! unat (searchStart s + 1) = LF \<and>
                 buffer s ! unat (searchStart s + 2) = CR \<and>
                 buffer s ! unat (searchStart s + 3) = LF
              then Some (True, snd (extractStatusLine (s\<lparr>fullHeaderReceived := True\<rparr>)))
              else loop (s\<lparr>searchStart := searchStart s + 1\<rparr>)
         else Some (False, s)) = Some y"
  show "fst y \<longrightarrow> fullHeaderReceived (snd y)"
    using body ih by (auto simp: extractStatusLine_keeps split: if_splits)
qed

lemma feed_true:
  assumes "feed data s = Some (True, s1)"
  shows "fullHeaderReceived s1"
proof (cases "fullHeaderReceived s")
  case True
  then show ?thesis using assms by (simp add: feed_def)
next
  case False
  then have "feed_loop (s\<lparr>buffer := buffer s @ data\<rparr>) = Some (True, s1)"
    using assms by (simp add: feed_def)
  from feed_loop_true[OF this] show ?thesis by simp
qed

lemma feed_done: "fullHeaderReceived s \<Longrightarrow> feed data s = Some (True, s)"
  by (simp add: feed_def)

lemma feed_all_done:
  "fullHeaderReceived s \<Longrightarrow> feed_all ds s = Some (replicate (length ds) True, s)"
  by (induction ds) (simp_all add: feed_done)

lemma example_feed:
  "feed example_response HttpStatusExtractor_new =
     Some (True, \<lparr>buffer = example_response, searchStart = 21, fullHeaderReceived = True,
                  statusLine = ''404 Not Found'' @ [CR, LF]\<rparr>)"
  by code_simp

text \<open>
  C10: once \<^verbatim>\<open>feed()\<close> has returned true, every later \<^verbatim>\<open>feed(data, size)\<close> returns true
  and changes nothing: the extractor is the same afterwards, so \<^verbatim>\<open>getBuffer()\<close> and
  \<^verbatim>\<open>getStatusLine()\<close> return what they returned before and the data is dropped. The same
  holds along any sequence of later calls.
\<close>

theorem feed_after_header_discards:
  assumes "feed data s = Some (True, s1)"
  shows "feed data' s1 = Some (True, s1)
     \<and> feed_all ds s1 = Some (replicate (length ds) True, s1)
     \<and> (\<forall>r s2. feed data' s1 = Some (r, s2) \<longrightarrow>
           r \<and> getBuffer s2 = getBuffer s1 \<and> getStatusLine s2 = getStatusLine s1)"
  using feed_true[OF assms] by (simp add: feed_done feed_all_done)

theorem feed_after_header_discards_witness:
  "feed example_response HttpStatusExtractor_new =
     Some (True, \<lparr>buffer = example_response, searchStart = 21, fullHeaderReceived = True,
                  statusLine = ''404 Not Found'' @ [CR, LF]\<rparr>)
   \<and> feed ''more body'' \<lparr>buffer = example_response, searchStart = 21, fullHeaderReceived = True,
                  statusLine = ''404 Not Found'' @ [CR, LF]\<rparr>
       = Some (True, \<lparr>buffer = example_response, searchStart = 21, fullHeaderReceived = True,
                  statusLine = ''404 Not Found'' @ [CR, LF]\<rparr>)
   \<and> feed_all [''more'', ''data''] \<lparr>buffer = example_response, searchStart = 21, fullHeaderReceived = True,
                  statusLine = ''404 Not Found'' @ [CR, LF]\<rparr>
       = Some ([True, True], \<lparr>buffer = example_response, searchStart = 21, fullHeaderReceived = True,
                  statusLine = ''404 Not Found'' @ [CR, LF]\<rparr>)"
  using feed_after_header_discards[OF example_feed, of "''more body''" "[''more'', ''data'']"] example_feed
  by simp

section \<open>Further properties\<close>

text \<open>
  X1: \<^verbatim>\<open>feed()\<close> returns whenever the buffer, with the new data appended, holds at most
  \<open>2^32\<close> bytes: below that size \<^verbatim>\<open>searchStart\<close> cannot wrap.
\<close>

theorem feed_returns:
  assumes "length (buffer s) + length data \<le> 2 ^ 32"
  shows "\<exists>r s'. feed data s = Some (r, s')"
proof (cases "fullHeaderReceived s")
  case True
  then show ?thesis by (auto simp: feed_def)
next
  case False
  have "\<exists>y. feed_loop (s\<lparr>buffer := buffer s @ data\<rparr>) = Some y"
    by (rule feed_loop_returns) (use assms in simp)
  then show ?thesis using False by (auto simp: feed_def)
qed

theorem feed_returns_witness:
  "length (buffer HttpStatusExtractor_new) + length example_response \<le> 2 ^ 32
   \<and> feed example_response HttpStatusExtractor_new =
       Some (True, \<lparr>buffer = example_response, searchStart = 21, fullHeaderReceived = True,
                    statusLine = ''404 Not Found'' @ [CR, LF]\<rparr>)"
proof -
  have l: "length (buffer HttpStatusExtractor_new) + length example_response \<le> 2 ^ 32"
    by (simp add: HttpStatusExtractor_new_def example_response_def)
  from feed_returns[OF l] l example_feed show ?thesis by simp
qed

text \<open>
  X2: the successful path of \<^verbatim>\<open>restartServer()\<close>. When \<^verbatim>\<open>socketpair\<close> hands out two
  distinct descriptors, the log file (if one is configured) opens on a third, and
  \<^verbatim>\<open>fork\<close> returns a child's pid, the call returns with the channel bound to
  \<^verbatim>\<open>fds[0]\<close>, which stays open, with \<^verbatim>\<open>pid\<close> the child's and \<^verbatim>\<open>serverNeedsRestart\<close>
  false, and with \<^verbatim>\<open>fds[1]\<close> and the log file closed in the parent.
\<close>

theorem restartServer_success:
  assumes "socketpair_ret env = Inr (a, b)" and "a \<noteq> b"
    and "logFile m = [] \<or> fopen_ret env = Some f \<and> f \<noteq> a"
    and "fork_ret env \<noteq> 0" and "fork_ret env \<noteq> - 1"
  shows "\<exists>m' p'. restartServer env m p = (Returned (), m', p')
     \<and> channel m' = MessageChannel_of a \<and> pid m' = fork_ret env \<and> \<not> serverNeedsRestart m'
     \<and> a \<in> open_fds p' \<and> b \<notin> open_fds p'
     \<and> (logFile m \<noteq> [] \<longrightarrow> f \<notin> open_fds p')"
proof -
  obtain m1 p1 where r: "reap_server m p = (m1, p1)" by (cases "reap_server m p")
  note f = reap_server_facts[OF r]
  show ?thesis
  proof (cases "logFile m = []")
    case True
    then show ?thesis
      using assms(1,2,4,5) f(2)
      by (simp add: restartServer_def r Let_def os_defs)
  next
    case False
    then have h: "fopen_ret env = Some f" "f \<noteq> a" using assms(3) by auto
    show ?thesis
      using False h assms(1,2,4,5) f(2)
      by (simp add: restartServer_def r Let_def os_defs)
  qed
qed

theorem restartServer_success_witness:
  "restartServer example_env (example_manager\<lparr>serverNeedsRestart := True\<rparr>) example_process
     = (Returned (), example_manager,
        \<lparr>open_fds = {0, 1, 2, 3},
         trace = [Ev_close 3, Ev_waitpid 1234, Ev_socketpair,
                  Ev_fopen ''/var/log/spawn.log'' ''a'', Ev_fork, Ev_close 4, Ev_fclose 5]\<rparr>)
   \<and> channel example_manager = MessageChannel_of 3
   \<and> pid example_manager = 1234"
proof -
  have e: "restartServer example_env (example_manager\<lparr>serverNeedsRestart := True\<rparr>) example_process
     = (Returned (), example_manager,
        \<lparr>open_fds = {0, 1, 2, 3},
         trace = [Ev_close 3, Ev_waitpid 1234, Ev_socketpair,
                  Ev_fopen ''/var/log/spawn.log'' ''a'', Ev_fork, Ev_close 4, Ev_fclose 5]\<rparr>)"
    by (auto simp: example_defs restartServer_def reap_server_def os_defs Let_def)
  have "socketpair_ret example_env = Inr (3, 4)" "fopen_ret example_env = Some 5"
    "fork_ret example_env \<noteq> 0" "fork_ret example_env \<noteq> - 1"
    by (simp_all add: example_env_def)
  from restartServer_success[OF this(1) _ _ this(3,4), where f = 5 and m = "example_manager\<lparr>serverNeedsRestart := True\<rparr>" and p = example_process]
    this(2) e
  show ?thesis by (auto simp: example_manager_def)
qed

end
